theory Spec2Isabelle
  imports Complex_Main "HOL-Library.Sublist" "HOL-Library.Word"
begin

unbundle bit_operations_syntax

section \<open>JavaScript values and strings\<close>

text \<open>
  The bodies handled by the synchronisation service are parsed JSON. A number is kept as an
  integer: the code only ever asks whether a metadata number is zero. A property that is
  absent reads as \<open>undefined\<close>, which is \<open>None\<close> in a \<open>jsval option\<close>.
\<close>

datatype jsval =
    JNull
  | JBool bool
  | JNum int
  | JStr string
  | JArr "jsval list"
  | JObj "(string \<times> jsval) list"

type_synonym jsopt = "jsval option"

text \<open>An AEM metadata object: \<open>metadata[field]\<close> is \<open>md field\<close>.\<close>

type_synonym metadata = "string \<rightharpoonup> jsval"

text \<open>JavaScript truthiness: \<open>undefined\<close>, \<open>null\<close>, \<open>false\<close>, \<open>0\<close> and \<open>""\<close> are falsy;
  every array and object is truthy, the empty ones too.\<close>

fun truthy :: "jsopt \<Rightarrow> bool" where
  "truthy None = False"
| "truthy (Some JNull) = False"
| "truthy (Some (JBool b)) = b"
| "truthy (Some (JNum n)) = (n \<noteq> 0)"
| "truthy (Some (JStr s)) = (s \<noteq> [])"
| "truthy (Some (JArr xs)) = True"
| "truthy (Some (JObj kvs)) = True"

text \<open>\<open>a || b\<close>\<close>

definition jsOr :: "jsopt \<Rightarrow> jsopt \<Rightarrow> jsopt" where
  "jsOr a b = (if truthy a then a else b)"

text \<open>What the code can throw. Messages are not modelled, the kind of the error is.\<close>

datatype js_error = TypeError | RangeError | AuthenticationFailed | RequestFailed

text \<open>\<open>String.prototype.toLowerCase\<close> on the ASCII letters (the two words it is compared with
  are ASCII, and no other character lower-cases to an ASCII letter of those words): an upper-case
  letter, code 65 to 90, gets bit 5 set, which adds 32.\<close>

fun lower_char :: "char \<Rightarrow> char" where
  "lower_char (Char b0 b1 b2 b3 b4 b5 b6 b7) =
     (let n = (of_char (Char b0 b1 b2 b3 b4 b5 b6 b7) :: nat) in
      if 65 \<le> n \<and> n \<le> 90 then Char b0 b1 b2 b3 b4 True b6 b7
      else Char b0 b1 b2 b3 b4 b5 b6 b7)"

definition toLowerCase :: "string \<Rightarrow> string" where
  "toLowerCase s = map lower_char s"

text \<open>\<open>value.toLowerCase()\<close> on an arbitrary truthy value: only a string has the method; on a
  number, a boolean, an array or an object the call is a TypeError.\<close>

fun callToLowerCase :: "jsval \<Rightarrow> js_error + string" where
  "callToLowerCase (JStr s) = Inr (toLowerCase s)"
| "callToLowerCase _ = Inl TypeError"

text \<open>\<open>s.includes(sub)\<close>: \<open>sub\<close> occurs in \<open>s\<close> as a contiguous substring.\<close>

fun includes_str :: "string \<Rightarrow> string \<Rightarrow> bool" where
  "includes_str [] sub = (sub = [])"
| "includes_str (c # cs) sub = (prefix sub (c # cs) \<or> includes_str cs sub)"

text \<open>\<open>s.split(sep)\<close> for a one-character separator; the result is never empty.\<close>

fun split_str :: "char \<Rightarrow> string \<Rightarrow> string list" where
  "split_str sep [] = [[]]"
| "split_str sep (c # cs) =
     (if c = sep then [] # split_str sep cs
      else (case split_str sep cs of [] \<Rightarrow> [[c]] | w # ws \<Rightarrow> (c # w) # ws))"

text \<open>\<open>xs.pop()\<close> read as a value: the last element.\<close>

definition pop :: "string list \<Rightarrow> string" where
  "pop xs = (case xs of [] \<Rightarrow> [] | _ \<Rightarrow> last xs)"

section \<open>Event filter and approval gate\<close>

definition processableEvents :: "string list" where
  "processableEvents =
     [''com.adobe.aem.assets.metadata.updated'',
      ''com.adobe.aem.workflow.completed'',
      ''com.adobe.aem.assets.created'',
      ''com.adobe.aem.assets.updated'',
      ''com.adobe.aem.assets.deleted'',
      ''com.adobe.aem.assets.removed'']"

text \<open>\<open>processableEvents.some(event => eventType.includes(event.split('.').pop()))\<close>\<close>

definition shouldProcessEvent :: "string \<Rightarrow> bool" where
  "shouldProcessEvent eventType =
     list_ex (\<lambda>event. includes_str eventType (pop (split_str CHR ''.'' event))) processableEvents"

text \<open>The loop of \<open>isAssetApproved\<close> over the field names, with its early return. A falsy value
  is passed over; a truthy one has \<open>toLowerCase\<close> called on it.\<close>

fun approvalLoop :: "string list \<Rightarrow> metadata \<Rightarrow> js_error + bool" where
  "approvalLoop [] md = Inr False"
| "approvalLoop (field # rest) md =
     (case md field of
        None \<Rightarrow> approvalLoop rest md
      | Some v \<Rightarrow>
          if truthy (Some v) then
            (case callToLowerCase v of
               Inl e \<Rightarrow> Inl e
             | Inr s \<Rightarrow>
                 if s = ''approved'' \<or> s = ''published'' then Inr True
                 else approvalLoop rest md)
          else approvalLoop rest md)"

definition approvalFields :: "string list" where
  "approvalFields =
     [''dam:status'', ''dam:approvalStatus'', ''cq:workflowStatus'',
      ''jcr:content/metadata/dam:status'']"

definition isAssetApproved :: "metadata \<Rightarrow> js_error + bool" where
  "isAssetApproved md = approvalLoop approvalFields md"

text \<open>
  The runtime action writes the same check with \<open>approvalFields.some(field => ...)\<close>:
  \<open>some\<close> calls the function on the elements in order, stops at the first truthy result, and
  lets an exception through.
\<close>

fun some_js :: "('a \<Rightarrow> js_error + bool) \<Rightarrow> 'a list \<Rightarrow> js_error + bool" where
  "some_js f [] = Inr False"
| "some_js f (x # xs) =
     (case f x of
        Inl e \<Rightarrow> Inl e
      | Inr True \<Rightarrow> Inr True
      | Inr False \<Rightarrow> some_js f xs)"

definition fieldApproves :: "metadata \<Rightarrow> string \<Rightarrow> js_error + bool" where
  "fieldApproves md field =
     (case md field of
        None \<Rightarrow> Inr False
      | Some v \<Rightarrow>
          if truthy (Some v) then
            (case callToLowerCase v of
               Inl e \<Rightarrow> Inl e
             | Inr s \<Rightarrow> Inr (s = ''approved'' \<or> s = ''published''))
          else Inr False)"

definition isAssetApproved_action :: "metadata \<Rightarrow> js_error + bool" where
  "isAssetApproved_action md = some_js (fieldApproves md) approvalFields"

section \<open>Webhook signature verification\<close>

type_synonym byte = "8 word"

text \<open>The value of one hexadecimal digit, in either case; \<open>None\<close> for any other character.\<close>

definition unhex :: "char \<Rightarrow> byte option" where
  "unhex c =
     (let n = (of_char c :: nat) in
      if 48 \<le> n \<and> n \<le> 57 then Some (of_nat (n - 48))
      else if 97 \<le> n \<and> n \<le> 102 then Some (of_nat (n - 87))
      else if 65 \<le> n \<and> n \<le> 70 then Some (of_nat (n - 55))
      else None)"

text \<open>\<open>Buffer.from(s, 'hex')\<close>: two digits give one byte; decoding stops at the first pair that
  is not two hexadecimal digits, and a trailing single character is dropped.\<close>

fun bufferFromHex :: "string \<Rightarrow> byte list" where
  "bufferFromHex (a # b # rest) =
     (case unhex a of
        None \<Rightarrow> []
      | Some hi \<Rightarrow>
          (case unhex b of
             None \<Rightarrow> []
           | Some lo \<Rightarrow> (push_bit 4 hi OR lo) # bufferFromHex rest))"
| "bufferFromHex _ = []"

definition hexDigit :: "byte \<Rightarrow> char" where
  "hexDigit d = ''0123456789abcdef'' ! unat d"

text \<open>\<open>digest('hex')\<close>: every byte as two lower-case digits.\<close>

definition digestHex :: "byte list \<Rightarrow> string" where
  "digestHex bs = concat (map (\<lambda>b. [hexDigit (drop_bit 4 b), hexDigit (b AND 15)]) bs)"

text \<open>\<open>crypto.timingSafeEqual(a, b)\<close> throws a RangeError when the two buffers differ in
  length, and compares them otherwise.\<close>

definition timingSafeEqual :: "byte list \<Rightarrow> byte list \<Rightarrow> js_error + bool" where
  "timingSafeEqual a b = (if length a \<noteq> length b then Inl RangeError else Inr (a = b))"

text \<open>
  \<open>verifyWebhookSignature(payload, signature, secret)\<close>. The keyed digest itself belongs to
  Node's crypto module; it is the parameter \<open>hmac\<close>, from the secret and the payload to the
  raw digest. \<open>Buffer.from(undefined, 'hex')\<close> is a TypeError.
\<close>

definition verifyWebhookSignature ::
  "(string \<Rightarrow> string \<Rightarrow> byte list) \<Rightarrow> string \<Rightarrow> string option \<Rightarrow> string \<Rightarrow> js_error + bool"
where
  "verifyWebhookSignature hmac payload signature secret =
     (let expectedSignature = digestHex (hmac secret payload) in
      case signature of
        None \<Rightarrow> Inl TypeError
      | Some sig \<Rightarrow> timingSafeEqual (bufferFromHex sig) (bufferFromHex expectedSignature))"

section \<open>JavaScript numbers\<close>

text \<open>
  A JavaScript number is an IEEE double: a rational of 53 significant bits, an infinity or
  NaN. (The sign of zero plays no part in what follows and is not kept.)
\<close>

datatype js_num = Num rat | PosInf | NegInf | NaN

text \<open>The number of binary digits of a natural number.\<close>

fun bitLength :: "nat \<Rightarrow> nat" where
  "bitLength n = (if n = 0 then 0 else Suc (bitLength (n div 2)))"

declare bitLength.simps [simp del]

definition pow2 :: "int \<Rightarrow> rat" where
  "pow2 e = (if 0 \<le> e then 2 ^ nat e else 1 / 2 ^ nat (- e))"

text \<open>The integer part of the binary logarithm of \<open>a / b\<close>, for positive \<open>a\<close> and \<open>b\<close>.\<close>

definition floorLog2 :: "nat \<Rightarrow> nat \<Rightarrow> int" where
  "floorLog2 a b =
     (let k = int (bitLength a) - int (bitLength b) in
      if b * 2 ^ nat k \<le> a * 2 ^ nat (- k) then k else k - 1)"

text \<open>\<open>n / d\<close> rounded to the nearest natural number, a tie going to the even one.\<close>

definition roundHalfEven :: "nat \<Rightarrow> nat \<Rightarrow> nat" where
  "roundHalfEven n d =
     (let f = n div d; r = n mod d in
      if d < 2 * r \<or> (2 * r = d \<and> odd f) then f + 1 else f)"

text \<open>
  The double nearest to a rational, as the parser and every arithmetic operation round
  their exact result: the value is scaled by a power of two \<open>2 ^ e\<close> to a significand of 53
  bits (fewer below the normal range, where \<open>e\<close> stays at -1074), the significand is rounded to
  nearest-even, and a result of \<open>2 ^ 1024\<close> or more is an infinity.
\<close>

definition toDouble :: "rat \<Rightarrow> js_num" where
  "toDouble q =
     (case quotient_of q of
        (p, d) \<Rightarrow>
          if p = 0 then Num 0
          else
            (let e = max (floorLog2 (nat \<bar>p\<bar>) (nat d) - 52) (- 1074);
                 m = roundHalfEven (nat \<bar>p\<bar> * 2 ^ nat (- e)) (nat d * 2 ^ nat e)
             in if 971 < e \<or> (e = 971 \<and> m = 2 ^ 53)
                then (if 0 < p then PosInf else NegInf)
                else Num (of_int (sgn p) * of_nat m * pow2 e)))"

text \<open>\<open>a + b\<close>, \<open>-a\<close>, \<open>a - b\<close> and \<open>a * b\<close> on numbers.\<close>

fun jsAdd :: "js_num \<Rightarrow> js_num \<Rightarrow> js_num" where
  "jsAdd (Num a) (Num b) = toDouble (a + b)"
| "jsAdd NaN y = NaN"
| "jsAdd x NaN = NaN"
| "jsAdd PosInf NegInf = NaN"
| "jsAdd NegInf PosInf = NaN"
| "jsAdd PosInf y = PosInf"
| "jsAdd x PosInf = PosInf"
| "jsAdd NegInf y = NegInf"
| "jsAdd x NegInf = NegInf"

fun jsNeg :: "js_num \<Rightarrow> js_num" where
  "jsNeg (Num a) = Num (- a)"
| "jsNeg PosInf = NegInf"
| "jsNeg NegInf = PosInf"
| "jsNeg NaN = NaN"

definition jsSub :: "js_num \<Rightarrow> js_num \<Rightarrow> js_num" where
  "jsSub x y = jsAdd x (jsNeg y)"

fun jsSign :: "js_num \<Rightarrow> int" where
  "jsSign (Num a) = (if a = 0 then 0 else if 0 < a then 1 else - 1)"
| "jsSign PosInf = 1"
| "jsSign NegInf = - 1"
| "jsSign NaN = 0"

fun jsMul :: "js_num \<Rightarrow> js_num \<Rightarrow> js_num" where
  "jsMul (Num a) (Num b) = toDouble (a * b)"
| "jsMul NaN y = NaN"
| "jsMul x NaN = NaN"
| "jsMul x y =
     (if jsSign x * jsSign y = 0 then NaN
      else if 0 < jsSign x * jsSign y then PosInf else NegInf)"

text \<open>A number is truthy unless it is zero or NaN. \<open>t < x\<close> for a clock value \<open>t\<close>.\<close>

fun numTruthy :: "js_num \<Rightarrow> bool" where
  "numTruthy (Num a) = (a \<noteq> 0)"
| "numTruthy PosInf = True"
| "numTruthy NegInf = True"
| "numTruthy NaN = False"

fun clockBefore :: "nat \<Rightarrow> js_num \<Rightarrow> bool" where
  "clockBefore t (Num a) = (of_nat t < a)"
| "clockBefore t PosInf = True"
| "clockBefore t NegInf = False"
| "clockBefore t NaN = False"

text \<open>The integers that doubles hold exactly: \<open>Number.isSafeInteger\<close>.\<close>

definition safeInteger :: "int \<Rightarrow> bool" where
  "safeInteger n = (\<bar>n\<bar> < 2 ^ 53)"

section \<open>OAuth token management\<close>

text \<open>The cached state of \<open>TokenManager\<close>; \<open>None\<close> is \<open>null\<close>.\<close>

record token_manager =
  accessToken :: "string option"
  tokenExpiry :: "js_num option"

definition newTokenManager :: token_manager where
  "newTokenManager = \<lparr>accessToken = None, tokenExpiry = None\<rparr>"

text \<open>The body of a successful token response. \<open>expires_in\<close> is the number written in the
  body, \<open>None\<close> when the body has no such number.\<close>

record token_data =
  access_token :: string
  expires_in :: "rat option"

text \<open>How the awaited \<open>axios.post\<close> to the token endpoint ends: resolved with the body of a 2xx
  response, or rejected, with the status of the response when there was one.\<close>

datatype token_outcome = TokenResolved token_data | TokenRejected "int option"

text \<open>The outbound requests and processing stages, recorded in the order they happen.\<close>

datatype operation = Create | Update | Remove

datatype http_verb = POST | PUT | DELETE

text \<open>\<open>Dispatch\<close> is the call of one of the three client functions, \<open>ApiRequest\<close> the axios
  call to the target API, \<open>OAuthRequest\<close> the one to the token endpoint.\<close>

datatype step =
    ApprovalCheck
  | Transform
  | Dispatch operation
  | OAuthRequest
  | ApiRequest http_verb

text \<open>\<open>this.accessToken && this.tokenExpiry && Date.now() < this.tokenExpiry\<close>, with
  \<open>Date.now()\<close> in whole milliseconds since the epoch.\<close>

definition cacheValid :: "token_manager \<Rightarrow> nat \<Rightarrow> bool" where
  "cacheValid tm now =
     ((case accessToken tm of None \<Rightarrow> False | Some t \<Rightarrow> t \<noteq> []) \<and>
      (case tokenExpiry tm of None \<Rightarrow> False | Some e \<Rightarrow> numTruthy e \<and> clockBefore now e))"

text \<open>\<open>Date.now() + (response.data.expires_in * 1000) - 60000\<close>: the number in the body is a
  double, and so is the result of each operation; a missing \<open>expires_in\<close> is \<open>undefined\<close>,
  which the multiplication turns into NaN. A clock value is a whole number of milliseconds
  small enough to be a double itself.\<close>

definition newExpiry :: "nat \<Rightarrow> rat option \<Rightarrow> js_num" where
  "newExpiry now expiresIn =
     jsSub
       (jsAdd (Num (of_nat now))
          (jsMul (case expiresIn of None \<Rightarrow> NaN | Some x \<Rightarrow> toDouble x) (Num 1000)))
       (Num 60000)"

text \<open>
  \<open>getAccessToken\<close> runs in two parts, separated by the \<open>await\<close>. The first part, up to the
  \<open>await\<close>, either returns the cached token or issues the token request.
\<close>

datatype token_start = Cached string | Requested

definition getAccessToken_start :: "token_manager \<Rightarrow> nat \<Rightarrow> token_start" where
  "getAccessToken_start tm now =
     (if cacheValid tm now then Cached (the (accessToken tm)) else Requested)"

text \<open>The second part runs when the request has settled, at time \<open>now\<close>.\<close>

definition getAccessToken_settle ::
  "token_manager \<Rightarrow> token_outcome \<Rightarrow> nat \<Rightarrow> (js_error + string) \<times> token_manager"
where
  "getAccessToken_settle tm outcome now =
     (case outcome of
        TokenResolved d \<Rightarrow>
          (Inr (access_token d),
           tm\<lparr>accessToken := Some (access_token d),
              tokenExpiry := Some (newExpiry now (expires_in d))\<rparr>)
      | TokenRejected st \<Rightarrow> (Inl AuthenticationFailed, tm))"

text \<open>One call run to its end with nothing in between: \<open>now\<close> is the time of the call,
  \<open>outcome\<close> and \<open>now'\<close> how and when the request settles, if one is made.\<close>

definition getAccessToken ::
  "token_manager \<Rightarrow> nat \<Rightarrow> token_outcome \<Rightarrow> nat
     \<Rightarrow> (js_error + string) \<times> token_manager \<times> step list"
where
  "getAccessToken tm now outcome now' =
     (case getAccessToken_start tm now of
        Cached t \<Rightarrow> (Inr t, tm, [])
      | Requested \<Rightarrow>
          (let (r, tm') = getAccessToken_settle tm outcome now' in (r, tm', [OAuthRequest])))"

text \<open>
  Several calls in flight. JavaScript runs each part of an asynchronous function to its
  \<open>await\<close> without interruption, so a schedule is a sequence of events: a caller starts a
  call, or the oldest outstanding token request settles.
\<close>

datatype tm_event = CallStarts nat | RequestSettles token_outcome nat

record tm_run =
  manager :: token_manager
  inFlight :: nat
  issued :: nat

definition tm_step :: "tm_run \<Rightarrow> tm_event \<Rightarrow> tm_run" where
  "tm_step s ev =
     (case ev of
        CallStarts now \<Rightarrow>
          (case getAccessToken_start (manager s) now of
             Cached t \<Rightarrow> s
           | Requested \<Rightarrow> s\<lparr>inFlight := inFlight s + 1, issued := issued s + 1\<rparr>)
      | RequestSettles outcome now \<Rightarrow>
          (if inFlight s = 0 then s
           else s\<lparr>manager := snd (getAccessToken_settle (manager s) outcome now),
                  inFlight := inFlight s - 1\<rparr>))"

definition tm_schedule :: "tm_run \<Rightarrow> tm_event list \<Rightarrow> tm_run" where
  "tm_schedule s evs = foldl tm_step s evs"

definition tm_initial :: tm_run where
  "tm_initial = \<lparr>manager = newTokenManager, inFlight = 0, issued = 0\<rparr>"

section \<open>Metadata transformation\<close>

text \<open>\<open>Array.isArray(v) ? v : [v]\<close>\<close>

definition asArray :: "jsval \<Rightarrow> jsval list" where
  "asArray v = (case v of JArr xs \<Rightarrow> xs | _ \<Rightarrow> [v])"

text \<open>\<open>if (metadata[field]) { acc.push(...asArray(metadata[field])) }\<close>\<close>

definition pushField :: "metadata \<Rightarrow> string \<Rightarrow> jsval list \<Rightarrow> jsval list" where
  "pushField md field acc =
     (case md field of
        None \<Rightarrow> acc
      | Some v \<Rightarrow> if truthy (Some v) then acc @ asArray v else acc)"

text \<open>
  A \<open>Set\<close> compares with SameValueZero: strings, numbers, booleans and \<open>null\<close> by value, arrays
  and objects by identity. Every array and object of a parsed body is an object of its own,
  so two values taken from different places of the metadata are the same to a \<open>Set\<close> only
  when they are equal primitives.
\<close>

fun primitive :: "jsval \<Rightarrow> bool" where
  "primitive (JArr xs) = False"
| "primitive (JObj kvs) = False"
| "primitive _ = True"

definition sameValueZero :: "jsval \<Rightarrow> jsval \<Rightarrow> bool" where
  "sameValueZero a b = (primitive a \<and> a = b)"

text \<open>\<open>set.add(v)\<close>, the set kept in insertion order.\<close>

definition setAdd :: "jsval list \<Rightarrow> jsval \<Rightarrow> jsval list" where
  "setAdd seen v = (if list_ex (sameValueZero v) seen then seen else seen @ [v])"

text \<open>\<open>[...new Set(xs)]\<close>\<close>

definition spreadSet :: "jsval list \<Rightarrow> jsval list" where
  "spreadSet xs = foldl setAdd [] xs"

definition extractTags :: "metadata \<Rightarrow> jsval list" where
  "extractTags md = spreadSet (pushField md ''dam:tags'' (pushField md ''cq:tags'' []))"

definition extractCategories :: "metadata \<Rightarrow> jsval list" where
  "extractCategories md =
     spreadSet (pushField md ''dam:category'' (pushField md ''dc:subject'' []))"

definition extractKeywords :: "metadata \<Rightarrow> jsval list" where
  "extractKeywords md = spreadSet (pushField md ''dc:keywords'' [])"

text \<open>A list has no duplicates when no element is the same to a \<open>Set\<close> as a later one.\<close>

fun noDuplicates :: "jsval list \<Rightarrow> bool" where
  "noDuplicates [] = True"
| "noDuplicates (x # xs) = (\<not> list_ex (sameValueZero x) xs \<and> noDuplicates xs)"

definition mimeTypes :: "(string \<times> string) list" where
  "mimeTypes =
     [(''jpg'', ''image/jpeg''), (''jpeg'', ''image/jpeg''), (''png'', ''image/png''),
      (''gif'', ''image/gif''), (''svg'', ''image/svg+xml''), (''mp4'', ''video/mp4''),
      (''mov'', ''video/quicktime''), (''pdf'', ''application/pdf''),
      (''txt'', ''text/plain'')]"

text \<open>
  \<open>mimeTypes[extension] || 'application/octet-stream'\<close>. The table is an object literal, so
  the lower-case names it inherits, \<open>constructor\<close> and \<open>__proto__\<close>, read as a function and an
  object: truthy and not a string, written \<open>JObj []\<close> here.
\<close>

definition getMimeTypeFromPath :: "string \<Rightarrow> jsval" where
  "getMimeTypeFromPath assetPath =
     (let extension = toLowerCase (pop (split_str CHR ''.'' assetPath)) in
      case map_of mimeTypes extension of
        Some m \<Rightarrow> JStr m
      | None \<Rightarrow>
          if extension = ''constructor'' \<or> extension = ''__proto__'' then JObj []
          else JStr ''application/octet-stream'')"

text \<open>\<open>getMediaType\<close>: \<open>startsWith\<close> and \<open>includes\<close> exist on strings only.\<close>

definition getMediaType :: "jsopt \<Rightarrow> js_error + string" where
  "getMediaType mimeType =
     (if \<not> truthy mimeType then Inr ''unknown''
      else
        (case mimeType of
           Some (JStr m) \<Rightarrow>
             Inr (if prefix ''image/'' m then ''image''
                  else if prefix ''video/'' m then ''video''
                  else if prefix ''audio/'' m then ''audio''
                  else if includes_str m ''pdf'' then ''document''
                  else if includes_str m ''text/'' then ''text''
                  else ''other'')
         | _ \<Rightarrow> Inl TypeError))"

text \<open>\<open>getApprovalStatus\<close> runs the same loop as \<open>isAssetApproved\<close> over three of the fields.\<close>

definition getApprovalStatus :: "metadata \<Rightarrow> js_error + string" where
  "getApprovalStatus md =
     (case approvalLoop [''dam:status'', ''dam:approvalStatus'', ''cq:workflowStatus''] md of
        Inl e \<Rightarrow> Inl e
      | Inr ok \<Rightarrow> Inr (if ok then ''approved'' else ''pending''))"

definition extractFileNameFromPath :: "string \<Rightarrow> string" where
  "extractFileNameFromPath assetPath = pop (split_str CHR ''/'' assetPath)"

text \<open>\<open>name.replace(/\.[^/.]+$/, '')\<close>: a final dot followed by at least one character, none
  of them a dot or a slash, is cut off with what follows it.\<close>

definition stripExtension :: "string \<Rightarrow> string" where
  "stripExtension name =
     (let ext = takeWhile (\<lambda>c. c \<noteq> CHR ''.'' \<and> c \<noteq> CHR ''/'') (rev name);
          rest = drop (length ext) (rev name)
      in if ext \<noteq> [] \<and> rest \<noteq> [] \<and> hd rest = CHR ''.'' then rev (tl rest) else name)"

definition extractAssetIdFromPath :: "string \<Rightarrow> string" where
  "extractAssetIdFromPath assetPath = stripExtension (pop (split_str CHR ''/'' assetPath))"

text \<open>The computed fields of the object \<open>transformForMLE\<close> returns; the remaining fields are
  metadata values copied as they are.\<close>

record mle_data =
  d_assetId :: jsopt
  d_assetPath :: "string option"
  d_mediaType :: string
  d_mimeType :: jsopt
  d_fileName :: string
  d_tags :: "jsval list"
  d_categories :: "jsval list"
  d_keywords :: "jsval list"
  d_approvalStatus :: string
  d_eventType :: "string option"

text \<open>
  The asset path and the event type come from the event as they are, \<open>None\<close> when the event
  has no such property. A function that splits the path throws a TypeError when it is called
  with \<open>undefined\<close>.
\<close>

definition fromPath :: "(string \<Rightarrow> 'a) \<Rightarrow> string option \<Rightarrow> js_error + 'a" where
  "fromPath f assetPath = (case assetPath of None \<Rightarrow> Inl TypeError | Some p \<Rightarrow> Inr (f p))"

text \<open>\<open>v || f(assetPath)\<close>: the function is called only when \<open>v\<close> is falsy.\<close>

definition orFromPath ::
  "jsopt \<Rightarrow> (string \<Rightarrow> jsval) \<Rightarrow> string option \<Rightarrow> js_error + jsopt"
where
  "orFromPath v f assetPath =
     (if truthy v then Inr v
      else (case fromPath f assetPath of Inl e \<Rightarrow> Inl e | Inr x \<Rightarrow> Inr (Some x)))"

definition assetIdOf :: "metadata \<Rightarrow> string option \<Rightarrow> js_error + jsopt" where
  "assetIdOf md assetPath =
     orFromPath (md ''jcr:uuid'') (\<lambda>p. JStr (extractAssetIdFromPath p)) assetPath"

definition transformForMLE ::
  "metadata \<Rightarrow> string option \<Rightarrow> string option \<Rightarrow> js_error + mle_data"
where
  "transformForMLE md assetPath eventType =
     (case orFromPath (md ''dc:format'') getMimeTypeFromPath assetPath of
        Inl e \<Rightarrow> Inl e
      | Inr mimeType \<Rightarrow>
     (case assetIdOf md assetPath of
        Inl e \<Rightarrow> Inl e
      | Inr assetId \<Rightarrow>
     (case getMediaType mimeType of
        Inl e \<Rightarrow> Inl e
      | Inr mediaType \<Rightarrow>
     (case fromPath extractFileNameFromPath assetPath of
        Inl e \<Rightarrow> Inl e
      | Inr fileName \<Rightarrow>
     (case getApprovalStatus md of
        Inl e \<Rightarrow> Inl e
      | Inr approvalStatus \<Rightarrow>
          Inr \<lparr>d_assetId = assetId,
               d_assetPath = assetPath,
               d_mediaType = mediaType,
               d_mimeType = mimeType,
               d_fileName = fileName,
               d_tags = extractTags md,
               d_categories = extractCategories md,
               d_keywords = extractKeywords md,
               d_approvalStatus = approvalStatus,
               d_eventType = eventType\<rparr>)))))"

section \<open>The client of the target API\<close>

record api_response =
  resp_status :: int
  resp_data :: jsval

text \<open>How an awaited axios call to the target API ends: resolved with a 2xx response, or
  rejected with \<open>error.response\<close> set when a response came and unset when none did.\<close>

datatype api_outcome = ApiResolved api_response | ApiRejected "api_response option"

text \<open>\<open>error.response?.data || error.message\<close>\<close>

datatype err_payload = ErrData jsval | ErrMessage js_error

record error_details =
  ed_assetId :: jsopt
  ed_error :: err_payload
  ed_status :: "int option"

text \<open>A result of the client: \<open>success: true\<close> with \<open>mleAssetId\<close>, \<open>status\<close>, \<open>message\<close> and
  \<open>responseData\<close>, or \<open>success: false\<close> with \<open>error\<close> and \<open>retryable\<close>, which is \<open>None\<close> when the
  result object has no such property.\<close>

datatype sync_result =
    SyncOk jsopt jsopt jsopt jsopt
  | SyncFailed error_details "bool option"

text \<open>\<open>isRetryableError(error)\<close>, as a function of \<open>error.response\<close>.\<close>

definition isRetryableError :: "api_response option \<Rightarrow> bool" where
  "isRetryableError response =
     (case response of
        None \<Rightarrow> True
      | Some r \<Rightarrow> resp_status r \<ge> 500 \<or> resp_status r = 429)"

definition errorDetails :: "jsopt \<Rightarrow> js_error \<Rightarrow> api_response option \<Rightarrow> error_details" where
  "errorDetails assetId e response =
     \<lparr>ed_assetId = assetId,
      ed_error =
        (case response of
           None \<Rightarrow> ErrMessage e
         | Some r \<Rightarrow> if truthy (Some (resp_data r)) then ErrData (resp_data r) else ErrMessage e),
      ed_status = map_option resp_status response\<rparr>"

text \<open>\<open>data.key\<close>: a TypeError on \<open>null\<close>, the property of an object, \<open>undefined\<close> on any other
  value (none of the keys read is a property of a string, a number or an array).\<close>

definition ownProp :: "jsval \<Rightarrow> string \<Rightarrow> jsopt" where
  "ownProp d key = (case d of JObj kvs \<Rightarrow> map_of kvs key | _ \<Rightarrow> None)"

definition getProp :: "jsval \<Rightarrow> string \<Rightarrow> js_error + jsopt" where
  "getProp d key = (if d = JNull then Inl TypeError else Inr (ownProp d key))"

text \<open>What one event meets outside the process: the clock at the call of \<open>getAccessToken\<close>,
  how and when the token request settles, and how the API request ends.\<close>

record world =
  w_now :: nat
  w_token :: token_outcome
  w_settled :: nat
  w_api :: api_outcome

definition sendAssetMetadata ::
  "token_manager \<Rightarrow> world \<Rightarrow> mle_data \<Rightarrow> sync_result \<times> token_manager \<times> step list"
where
  "sendAssetMetadata tm w transformedData =
     (case getAccessToken tm (w_now w) (w_token w) (w_settled w) of
        (Inl e, tm', tr) \<Rightarrow>
          (SyncFailed (errorDetails (d_assetId transformedData) e None)
             (Some (isRetryableError None)), tm', tr)
      | (Inr token, tm', tr) \<Rightarrow>
          (case w_api w of
             ApiRejected response \<Rightarrow>
               (SyncFailed (errorDetails (d_assetId transformedData) RequestFailed response)
                  (Some (isRetryableError response)), tm', tr @ [ApiRequest POST])
           | ApiResolved r \<Rightarrow>
               (case getProp (resp_data r) ''id'' of
                  Inl e \<Rightarrow>
                    (SyncFailed (errorDetails (d_assetId transformedData) e None)
                       (Some (isRetryableError None)), tm', tr @ [ApiRequest POST])
                | Inr idv \<Rightarrow>
                    (SyncOk
                       (jsOr idv (ownProp (resp_data r) ''assetId''))
                       (ownProp (resp_data r) ''status'')
                       (ownProp (resp_data r) ''message'')
                       (Some (resp_data r)), tm', tr @ [ApiRequest POST]))))"

definition updateAssetMetadata ::
  "token_manager \<Rightarrow> world \<Rightarrow> jsopt \<Rightarrow> mle_data \<Rightarrow> sync_result \<times> token_manager \<times> step list"
where
  "updateAssetMetadata tm w assetId transformedData =
     (case getAccessToken tm (w_now w) (w_token w) (w_settled w) of
        (Inl e, tm', tr) \<Rightarrow>
          (SyncFailed (errorDetails assetId e None) (Some (isRetryableError None)), tm', tr)
      | (Inr token, tm', tr) \<Rightarrow>
          (case w_api w of
             ApiRejected response \<Rightarrow>
               (SyncFailed (errorDetails assetId RequestFailed response)
                  (Some (isRetryableError response)), tm', tr @ [ApiRequest PUT])
           | ApiResolved r \<Rightarrow>
               (case getProp (resp_data r) ''id'' of
                  Inl e \<Rightarrow>
                    (SyncFailed (errorDetails assetId e None)
                       (Some (isRetryableError None)), tm', tr @ [ApiRequest PUT])
                | Inr idv \<Rightarrow>
                    (SyncOk
                       (jsOr idv assetId)
                       (ownProp (resp_data r) ''status'')
                       (ownProp (resp_data r) ''message'')
                       (Some (resp_data r)), tm', tr @ [ApiRequest PUT]))))"

text \<open>\<open>deleteAsset\<close>: its failure result is \<open>{ success: false, error: errorDetails }\<close>.\<close>

definition deleteAsset ::
  "token_manager \<Rightarrow> world \<Rightarrow> jsopt \<Rightarrow> sync_result \<times> token_manager \<times> step list"
where
  "deleteAsset tm w assetId =
     (case getAccessToken tm (w_now w) (w_token w) (w_settled w) of
        (Inl e, tm', tr) \<Rightarrow> (SyncFailed (errorDetails assetId e None) None, tm', tr)
      | (Inr token, tm', tr) \<Rightarrow>
          (case w_api w of
             ApiRejected response \<Rightarrow>
               (SyncFailed (errorDetails assetId RequestFailed response) None,
                tm', tr @ [ApiRequest DELETE])
           | ApiResolved r \<Rightarrow>
               (SyncOk None None (Some (JStr ''Asset deleted successfully'')) None,
                tm', tr @ [ApiRequest DELETE])))"

section \<open>Event processing\<close>

text \<open>
  The event as \<open>processAssetEvent\<close> reads it: \<open>const { assetPath, metadata, eventType } =
  eventData\<close>. Each of the three is \<open>None\<close> when the object has no property of that name:
  the handler passes the request body itself, and a body of the documented shape,
  \<open>{ event_type, data: { timestamp, payload: { path, metadata } } }\<close>, has none of them.
\<close>

record asset_event =
  ev_assetPath :: "string option"
  ev_metadata :: "metadata option"
  ev_eventType :: "string option"

datatype proc_status = Processing | Completed | Failed | Error

text \<open>An entry of \<open>result.errors\<close>: the error of a failed client result, or the message of a
  caught exception, with the \<open>retryable\<close> flag as it was copied.\<close>

datatype err_report = FromClient error_details | FromException js_error

record error_entry =
  ee_error :: err_report
  ee_retryable :: "bool option"

datatype event_result =
    Skipped
  | Result "sync_result option" proc_status "error_entry list" jsopt

definition isSuccess :: "sync_result \<Rightarrow> bool" where
  "isSuccess r = (case r of SyncOk a b c d \<Rightarrow> True | SyncFailed e rt \<Rightarrow> False)"

text \<open>
  \<open>processAssetEvent\<close>. The approval check and the \<open>assetId\<close> of the result stand before the
  \<open>try\<close>, so what they throw leaves the function: \<open>metadata[field]\<close> on an undefined
  \<open>metadata\<close> is a TypeError. What the transformation throws, and \<open>eventType.includes\<close> on an
  undefined \<open>eventType\<close>, is caught and reported in the result. The branch taken on the event
  type is recorded with the client function it calls.
\<close>

definition errorResult :: "js_error \<Rightarrow> jsopt \<Rightarrow> event_result" where
  "errorResult e assetId =
     Result None Error [\<lparr>ee_error = FromException e, ee_retryable = Some True\<rparr>] assetId"

definition processAssetEvent ::
  "token_manager \<Rightarrow> world \<Rightarrow> asset_event
     \<Rightarrow> (js_error + event_result) \<times> token_manager \<times> step list"
where
  "processAssetEvent tm w ev =
     (case ev_metadata ev of
        None \<Rightarrow> (Inl TypeError, tm, [ApprovalCheck])
      | Some metadata \<Rightarrow>
     (case isAssetApproved metadata of
        Inl e \<Rightarrow> (Inl e, tm, [ApprovalCheck])
      | Inr False \<Rightarrow> (Inr Skipped, tm, [ApprovalCheck])
      | Inr True \<Rightarrow>
     (case assetIdOf metadata (ev_assetPath ev) of
        Inl e \<Rightarrow> (Inl e, tm, [ApprovalCheck])
      | Inr assetId \<Rightarrow>
     (case transformForMLE metadata (ev_assetPath ev) (ev_eventType ev) of
        Inl e \<Rightarrow> (Inr (errorResult e assetId), tm, [ApprovalCheck, Transform])
      | Inr mleData \<Rightarrow>
     (case ev_eventType ev of
        None \<Rightarrow> (Inr (errorResult TypeError assetId), tm, [ApprovalCheck, Transform])
      | Some eventType \<Rightarrow>
          (let (op, mleResult, tm', tr) =
                 (if includes_str eventType ''created'' \<or>
                     includes_str eventType ''published''
                  then (Create, sendAssetMetadata tm w mleData)
                  else if includes_str eventType ''updated'' \<or>
                     includes_str eventType ''modified''
                  then (Update, updateAssetMetadata tm w (d_assetId mleData) mleData)
                  else if includes_str eventType ''deleted'' \<or>
                     includes_str eventType ''removed''
                  then (Remove, deleteAsset tm w (d_assetId mleData))
                  else (Create, sendAssetMetadata tm w mleData))
           in
           (Inr (Result (Some mleResult)
                   (if isSuccess mleResult then Completed else Failed)
                   (case mleResult of
                      SyncOk a b c d \<Rightarrow> []
                    | SyncFailed e rt \<Rightarrow>
                        [\<lparr>ee_error = FromClient e, ee_retryable = rt\<rparr>])
                   assetId),
            tm', [ApprovalCheck, Transform, Dispatch op] @ tr)))))))"

section \<open>The webhook endpoint\<close>

text \<open>
  What the handler reads of a request: the \<open>x-adobe-signature\<close> header, the text
  \<open>JSON.stringify(req.body)\<close>, the \<open>event_type\<close> of the body, which the filter reads, and the
  properties \<open>assetPath\<close>, \<open>metadata\<close> and \<open>eventType\<close> of the body, which
  \<open>processAssetEvent\<close> reads, the body being passed to it as it is.
\<close>

record request =
  rq_signature :: "string option"
  rq_bodyText :: string
  rq_event_type :: "string option"
  rq_event :: asset_event

datatype http_response =
    Ignored200
  | Processed200 event_result
  | InvalidSignature401
  | InternalError500

text \<open>The signature check of the handler: passed over when no secret is configured, failed
  without a verification when the header is missing or empty.\<close>

definition checkSignature ::
  "(string \<Rightarrow> string \<Rightarrow> byte list) \<Rightarrow> string option \<Rightarrow> request \<Rightarrow> js_error + bool"
where
  "checkSignature hmac aemWebhookSecret rq =
     (case aemWebhookSecret of
        None \<Rightarrow> Inr True
      | Some secret \<Rightarrow>
          if secret = [] then Inr True
          else
            (case rq_signature rq of
               None \<Rightarrow> Inr False
             | Some sig \<Rightarrow>
                 if sig = [] then Inr False
                 else verifyWebhookSignature hmac (rq_bodyText rq) (Some sig) secret))"

definition webhook ::
  "(string \<Rightarrow> string \<Rightarrow> byte list) \<Rightarrow> string option \<Rightarrow> token_manager \<Rightarrow> world \<Rightarrow> request
     \<Rightarrow> http_response \<times> token_manager \<times> step list"
where
  "webhook hmac aemWebhookSecret tm w rq =
     (case checkSignature hmac aemWebhookSecret rq of
        Inl e \<Rightarrow> (InternalError500, tm, [])
      | Inr False \<Rightarrow> (InvalidSignature401, tm, [])
      | Inr True \<Rightarrow>
          (case rq_event_type rq of
             None \<Rightarrow> (Ignored200, tm, [])
           | Some event_type \<Rightarrow>
               if event_type = [] \<or> \<not> shouldProcessEvent event_type then (Ignored200, tm, [])
               else
                 (case processAssetEvent tm w (rq_event rq) of
                    (Inl e, tm', tr) \<Rightarrow> (InternalError500, tm', tr)
                  | (Inr result, tm', tr) \<Rightarrow> (Processed200 result, tm', tr))))"

section \<open>Reading traces, and the words of the specification\<close>

text \<open>The operations dispatched and the API requests made, read off a trace.\<close>

fun dispatched :: "step list \<Rightarrow> operation list" where
  "dispatched [] = []"
| "dispatched (Dispatch op # tr) = op # dispatched tr"
| "dispatched (s # tr) = dispatched tr"

fun apiRequests :: "step list \<Rightarrow> http_verb list" where
  "apiRequests [] = []"
| "apiRequests (ApiRequest v # tr) = v # apiRequests tr"
| "apiRequests (s # tr) = apiRequests tr"

text \<open>The verb the specification gives each operation: create posts, update puts, remove
  deletes.\<close>

fun verbOf :: "operation \<Rightarrow> http_verb" where
  "verbOf Create = POST"
| "verbOf Update = PUT"
| "verbOf Remove = DELETE"

text \<open>The event-type suffixes the specification names: asset created, updated, deleted and
  removed, metadata updated, workflow completed.\<close>

definition spec_suffixes :: "string list" where
  "spec_suffixes = [''created'', ''updated'', ''deleted'', ''removed'', ''completed'']"

text \<open>A status value that approves: a string equal to \<open>approved\<close> or \<open>published\<close> whatever its
  case. A status value that is truthy and not a string.\<close>

definition approves :: "jsopt \<Rightarrow> bool" where
  "approves v =
     (case v of
        Some (JStr s) \<Rightarrow> toLowerCase s = ''approved'' \<or> toLowerCase s = ''published''
      | _ \<Rightarrow> False)"

definition truthyNonString :: "jsopt \<Rightarrow> bool" where
  "truthyNonString v = (truthy v \<and> (case v of Some (JStr s) \<Rightarrow> False | _ \<Rightarrow> True))"

subsection \<open>Example inputs\<close>

text \<open>A token endpoint that grants a token for an hour and an API that answers 200.\<close>

definition example_world :: world where
  "example_world =
     \<lparr>w_now = 1000,
      w_token = TokenResolved \<lparr>access_token = ''t1'', expires_in = Some 3600\<rparr>,
      w_settled = 1200,
      w_api = ApiResolved \<lparr>resp_status = 200, resp_data = JObj [(''id'', JStr ''m1'')]\<rparr>\<rparr>"

text \<open>The same, with an API that answers 503.\<close>

definition world_503 :: world where
  "world_503 =
     example_world\<lparr>w_api := ApiRejected (Some \<lparr>resp_status = 503, resp_data = JNull\<rparr>)\<rparr>"

text \<open>The asset of the end-to-end scenarios, with a given event type and \<open>dam:status\<close>, in a
  body that carries the three properties \<open>processAssetEvent\<close> reads.\<close>

definition example_event :: "string \<Rightarrow> jsval \<Rightarrow> asset_event" where
  "example_event t st =
     \<lparr>ev_assetPath = Some ''/content/dam/p.jpg'',
      ev_metadata = Some [''dam:status'' \<mapsto> st, ''dc:title'' \<mapsto> JStr ''T'',
                          ''jcr:uuid'' \<mapsto> JStr ''u1''],
      ev_eventType = Some t\<rparr>"

text \<open>
  The body the integration test \<open>testNonAssetEvent\<close> posts, and expects to be ignored:
  \<open>{ event_type: 'com.adobe.aem.page.updated', data: { timestamp, payload: { path:
  '/content/site/page', metadata: {} } } }\<close>. It has no \<open>assetPath\<close>, \<open>metadata\<close> or
  \<open>eventType\<close> of its own. The header is a parameter.
\<close>

definition page_updated_test_request :: "string option \<Rightarrow> string \<Rightarrow> request" where
  "page_updated_test_request sig bodyText =
     \<lparr>rq_signature = sig,
      rq_bodyText = bodyText,
      rq_event_type = Some ''com.adobe.aem.page.updated'',
      rq_event = \<lparr>ev_assetPath = None, ev_metadata = None, ev_eventType = None\<rparr>\<rparr>"

text \<open>An approved asset whose \<open>dc:format\<close> is a number.\<close>

definition number_format_metadata :: metadata where
  "number_format_metadata =
     [''dam:status'' \<mapsto> JStr ''approved'', ''dc:format'' \<mapsto> JNum 5,
      ''jcr:uuid'' \<mapsto> JStr ''u1'']"

definition number_format_event :: asset_event where
  "number_format_event =
     \<lparr>ev_assetPath = Some ''/content/dam/p.jpg'',
      ev_metadata = Some number_format_metadata,
      ev_eventType = Some ''com.adobe.aem.assets.updated''\<rparr>"

definition example_request :: "string \<Rightarrow> jsval \<Rightarrow> request" where
  "example_request t st =
     \<lparr>rq_signature = None,
      rq_bodyText = ''{}'',
      rq_event_type = Some t,
      rq_event = example_event t st\<rparr>"

text \<open>A stand-in for the keyed digest in examples: 32 bytes, as SHA-256 gives.\<close>

definition zeroDigest :: "string \<Rightarrow> string \<Rightarrow> byte list" where
  "zeroDigest secret payload = replicate 32 0"

text \<open>Metadata whose two tag fields overlap, one holding a sequence and one a scalar.\<close>

definition overlapping_tags :: metadata where
  "overlapping_tags =
     [''cq:tags'' \<mapsto> JArr [JStr ''a'', JStr ''b'', JStr ''a''], ''dam:tags'' \<mapsto> JStr ''b'',
      ''dc:subject'' \<mapsto> JStr ''c'', ''dam:category'' \<mapsto> JArr [JStr ''c'', JNum 7],
      ''dc:keywords'' \<mapsto> JArr [JStr ''k'', JStr ''k'']]"

text \<open>An event whose third status field holds an array, after a draft \<open>dam:status\<close>.\<close>

definition array_status_metadata :: metadata where
  "array_status_metadata =
     [''dam:status'' \<mapsto> JStr ''draft'', ''cq:workflowStatus'' \<mapsto> JArr [JStr ''approved'']]"

definition array_status_event :: asset_event where
  "array_status_event =
     \<lparr>ev_assetPath = Some ''/content/dam/p.jpg'',
      ev_metadata = Some array_status_metadata,
      ev_eventType = Some ''com.adobe.aem.assets.updated''\<rparr>"

definition array_status_request :: request where
  "array_status_request =
     \<lparr>rq_signature = None,
      rq_bodyText = ''{}'',
      rq_event_type = Some ''com.adobe.aem.assets.updated'',
      rq_event = array_status_event\<rparr>"

section \<open>Exact arithmetic on safe integers\<close>

lemma bitLength_bounds: "0 < n \<Longrightarrow> 2 ^ (bitLength n - 1) \<le> n \<and> n < 2 ^ bitLength n"
proof (induction n rule: bitLength.induct)
  case (1 n)
  show ?case
  proof (cases "n div 2 = 0")
    case True
    with "1.prems" have "n = 1" by (simp add: div_eq_0_iff)
    then show ?thesis by (simp add: bitLength.simps)
  next
    case False
    then have pos: "0 < n div 2" by simp
    from "1.IH" [OF _ pos] "1.prems"
    have ih: "2 ^ (bitLength (n div 2) - 1) \<le> n div 2" "n div 2 < 2 ^ bitLength (n div 2)"
      by auto
    have bl: "bitLength n = Suc (bitLength (n div 2))"
      using "1.prems" by (subst bitLength.simps) simp
    have bpos: "0 < bitLength (n div 2)"
      using pos by (subst bitLength.simps) simp
    then obtain j where j: "bitLength (n div 2) = Suc j"
      by (cases "bitLength (n div 2)") auto
    from ih j have "2 ^ j \<le> n div 2" "n div 2 < 2 ^ Suc j" by simp_all
    then have "2 * 2 ^ j \<le> n" "n < 2 * 2 ^ Suc j" by linarith+
    then show ?thesis by (simp add: bl j)
  qed
qed

lemma bitLength_one: "bitLength (Suc 0) = 1"
  by (simp add: bitLength.simps)

lemma floorLog2_whole:
  assumes "0 < a"
  shows "floorLog2 a (Suc 0) = int (bitLength a) - 1"
proof -
  from bitLength_bounds [OF assms]
  have lo: "2 ^ (bitLength a - 1) \<le> a" and hi: "a < 2 ^ bitLength a"
    by simp_all
  have pos: "0 < bitLength a" using hi assms by (cases "bitLength a") auto
  then have n: "nat (int (bitLength a) - 1) = bitLength a - 1" "nat (1 - int (bitLength a)) = 0"
    by simp_all
  show ?thesis using lo by (simp add: floorLog2_def bitLength_one n)
qed

lemma roundHalfEven_whole: "roundHalfEven n (Suc 0) = n"
  by (simp add: roundHalfEven_def)

lemma pow2_neg: "pow2 (- int j) = 1 / 2 ^ j"
  by (cases "j = 0") (simp_all add: pow2_def)

text \<open>An integer of magnitude below \<open>2 ^ 53\<close> is its own double.\<close>

lemma toDouble_of_int:
  assumes "safeInteger n"
  shows "toDouble (of_int n) = Num (of_int n)"
proof (cases "n = 0")
  case True
  then show ?thesis by (simp add: toDouble_def)
next
  case False
  define a where "a = nat \<bar>n\<bar>"
  have apos: "0 < a" using False by (simp add: a_def)
  have alt: "a < 2 ^ 53" using assms by (simp add: a_def nat_less_iff safeInteger_def)
  define L where "L = bitLength a"
  from bitLength_bounds [OF apos] have lo: "2 ^ (L - 1) \<le> a" and hi: "a < 2 ^ L"
    by (simp_all add: L_def)
  have Lpos: "0 < L" using hi apos by (cases L) auto
  have lt: "(2::nat) ^ (L - 1) < 2 ^ 53" using lo alt by (rule le_less_trans)
  have "L - 1 < 53" by (rule power_less_imp_less_exp [OF _ lt]) simp
  then have L53: "L \<le> 53" by simp
  define j where "j = 53 - L"
  have fl: "floorLog2 a (Suc 0) = int L - 1" by (simp add: floorLog2_whole [OF apos] L_def)
  have e: "max (int L - 1 - 52) (- 1074) = - int j" using L53 Lpos by (simp add: j_def)
  have ne: "nat (- (- int j)) = j" "nat (- int j) = 0" by simp_all
  have m: "roundHalfEven (a * 2 ^ j) (Suc 0) = a * 2 ^ j" by (rule roundHalfEven_whole)
  have no: "\<not> (971 < - int j \<or> (- int j = 971 \<and> a * 2 ^ j = 2 ^ 53))" by simp
  have r: "of_int (sgn n) * of_nat (a * 2 ^ j) * pow2 (- int j) = (of_int n :: rat)"
  proof -
    have "of_int (sgn n) * (of_nat a :: rat) = of_int (sgn n * \<bar>n\<bar>)"
      by (simp add: a_def)
    also have "sgn n * \<bar>n\<bar> = n" by (rule sgn_mult_abs)
    finally have "of_int (sgn n) * (of_nat a :: rat) = of_int n" .
    then show ?thesis by (simp add: pow2_neg)
  qed
  have "toDouble (of_int n) =
      (let e = max (floorLog2 a (Suc 0) - 52) (- 1074);
           m = roundHalfEven (a * 2 ^ nat (- e)) (Suc 0 * 2 ^ nat e)
       in if 971 < e \<or> (e = 971 \<and> m = 2 ^ 53)
          then (if 0 < n then PosInf else NegInf)
          else Num (of_int (sgn n) * of_nat m * pow2 e))"
    using False by (simp add: toDouble_def a_def)
  also have "\<dots> = Num (of_int (sgn n) * of_nat (a * 2 ^ j) * pow2 (- int j))"
    unfolding fl e Let_def ne using m no by simp
  finally show ?thesis using r by simp
qed

text \<open>So the expiry is the exact sum when the whole seconds, their milliseconds and the two
  sums are safe integers.\<close>

lemma newExpiry_exact:
  assumes "safeInteger (k * 1000)"
      and "safeInteger (int now + k * 1000)"
      and "safeInteger (int now + k * 1000 - 60000)"
  shows "newExpiry now (Some (of_int k)) = Num (of_int (int now + k * 1000 - 60000))"
proof -
  have "\<bar>k\<bar> \<le> \<bar>k * 1000\<bar>" by (simp add: abs_mult)
  then have k: "safeInteger k" using assms(1) by (simp add: safeInteger_def)
  have a: "toDouble (of_int k) = Num (of_int k)" by (rule toDouble_of_int [OF k])
  have b: "jsMul (Num (of_int k)) (Num 1000) = Num (of_int (k * 1000))"
    using toDouble_of_int [OF assms(1)] by simp
  have c: "jsAdd (Num (of_nat now)) (Num (of_int (k * 1000))) = Num (of_int (int now + k * 1000))"
    using toDouble_of_int [OF assms(2)] by simp
  have d: "jsSub (Num (of_int (int now + k * 1000))) (Num 60000)
             = Num (of_int (int now + k * 1000 - 60000))"
    using toDouble_of_int [OF assms(3)] by (simp add: jsSub_def)
  have "newExpiry now (Some (of_int k)) =
      jsSub (jsAdd (Num (of_nat now)) (jsMul (toDouble (of_int k)) (Num 1000))) (Num 60000)"
    by (simp add: newExpiry_def)
  also have "\<dots> = Num (of_int (int now + k * 1000 - 60000))"
    by (simp only: a b c d)
  finally show ?thesis .
qed

lemma newExpiry_hour: "newExpiry 1200 (Some 3600) = Num 3541200"
  using newExpiry_exact [of 3600 1200] by (simp add: safeInteger_def)







text \<open>A tenth of a second is not a double; the nearest one is taken. A missing \<open>expires_in\<close>
  gives NaN.\<close>

lemma toDouble_tenth: "toDouble (1 / 10) = Num (3602879701896397 / 36028797018963968)"
proof -
  have b: "bitLength 10 = 4" by (simp add: bitLength.simps)
  have f: "(1 / 10 :: rat) = Fract 1 10" by (simp add: Fract_of_int_quotient)
  have q: "quotient_of (1 / 10 :: rat) = (1, 10)"
    by (subst f, subst quotient_of_Fract) (simp add: Rat.normalize_def)
  show ?thesis
    by (simp add: toDouble_def q floorLog2_def roundHalfEven_def b bitLength_one pow2_def Let_def)
qed

lemma newExpiry_missing: "newExpiry now None = NaN"
  by (simp add: newExpiry_def jsSub_def)

section \<open>The event filter\<close>

lemma suffixes_of_processableEvents:
  "map (\<lambda>event. pop (split_str CHR ''.'' event)) processableEvents =
     [''updated'', ''completed'', ''created'', ''updated'', ''deleted'', ''removed'']"
  by (simp add: processableEvents_def pop_def)

lemma shouldProcessEvent_iff:
  "shouldProcessEvent t \<longleftrightarrow> (\<exists>s \<in> set spec_suffixes. includes_str t s)"
proof -
  have "shouldProcessEvent t \<longleftrightarrow>
      list_ex (includes_str t) (map (\<lambda>event. pop (split_str CHR ''.'' event)) processableEvents)"
    by (simp add: shouldProcessEvent_def list_ex_iff)
  also have "\<dots> \<longleftrightarrow> (\<exists>s \<in> set spec_suffixes. includes_str t s)"
    unfolding suffixes_of_processableEvents by (auto simp: spec_suffixes_def)
  finally show ?thesis .
qed

lemma shouldProcessEvent_empty: "\<not> shouldProcessEvent []"
  by (simp add: shouldProcessEvent_iff spec_suffixes_def)

lemma page_updated_processable: "shouldProcessEvent ''com.adobe.aem.page.updated''"
  by (simp add: shouldProcessEvent_iff spec_suffixes_def)

lemma assets_updated_processable: "shouldProcessEvent ''com.adobe.aem.assets.updated''"
  by (simp add: shouldProcessEvent_iff spec_suffixes_def)

text \<open>An event whose type is absent or contains none of the suffixes \<open>created\<close>,
  \<open>updated\<close>, \<open>deleted\<close>, \<open>removed\<close>, \<open>completed\<close> causes no approval check, no
  transformation and no outbound call, and is answered \<open>ignored\<close> once the signature check
  has passed.\<close>

lemma unmatched_event_ignored:
  assumes "case rq_event_type rq of None \<Rightarrow> True
           | Some t \<Rightarrow> \<forall>s \<in> set spec_suffixes. \<not> includes_str t s"
  shows "snd (snd (webhook hmac secret tm w rq)) = [] \<and>
         (checkSignature hmac secret rq = Inr True \<longrightarrow>
            webhook hmac secret tm w rq = (Ignored200, tm, []))"
  using assms
  by (auto simp: webhook_def shouldProcessEvent_iff split: sum.splits bool.splits option.splits)

lemma page_moved_ignored:
  "webhook zeroDigest None newTokenManager example_world
       (example_request ''com.adobe.aem.page.moved'' (JStr ''approved''))
     = (Ignored200, newTokenManager, [])"
proof -
  have h: "case rq_event_type (example_request ''com.adobe.aem.page.moved'' (JStr ''approved'')) of
      None \<Rightarrow> True | Some t \<Rightarrow> \<forall>s \<in> set spec_suffixes. \<not> includes_str t s"
    by (simp add: example_request_def spec_suffixes_def)
  have c: "checkSignature zeroDigest None
      (example_request ''com.adobe.aem.page.moved'' (JStr ''approved'')) = Inr True"
    by (simp add: checkSignature_def)
  from unmatched_event_ignored [OF h, of zeroDigest None newTokenManager example_world] c
  show ?thesis by blast
qed

lemma zero_signature_accepted:
  "checkSignature zeroDigest (Some ''test-secret'')
     (page_updated_test_request (Some (digestHex (zeroDigest ''test-secret'' bodyText))) bodyText)
     = Inr True"
  by (simp add: checkSignature_def page_updated_test_request_def verifyWebhookSignature_def
      timingSafeEqual_def zeroDigest_def digestHex_def)

text \<open>
  C1 asks that an event of type \<open>com.adobe.aem.page.updated\<close> be answered \<open>ignored\<close> with no
  approval check. The type contains \<open>updated\<close>, the last segment of the listed asset events,
  so the filter lets it through. For the body that the integration test posts, the approval
  check is entered and throws on the missing \<open>metadata\<close>, and the endpoint answers 500: with
  no secret configured, and with the secret of the test and a signature that verifies. For a
  body that carries the metadata of a draft asset the answer is \<open>processed\<close> with the result
  \<open>skipped\<close>. In no case is it \<open>ignored\<close>.
\<close>

theorem C1_page_updated_not_ignored:
  "webhook hmac None tm w (page_updated_test_request sig bodyText)
     = (InternalError500, tm, [ApprovalCheck]) \<and>
   webhook zeroDigest (Some ''test-secret'') tm w
       (page_updated_test_request (Some (digestHex (zeroDigest ''test-secret'' bodyText))) bodyText)
     = (InternalError500, tm, [ApprovalCheck]) \<and>
   webhook hmac None tm w (example_request ''com.adobe.aem.page.updated'' (JStr ''draft''))
     = (Processed200 Skipped, tm, [ApprovalCheck])"
proof -
  have a: "webhook hmac None tm w (page_updated_test_request sig bodyText)
      = (InternalError500, tm, [ApprovalCheck])"
    by (simp add: page_updated_processable webhook_def checkSignature_def
        page_updated_test_request_def processAssetEvent_def)
  have b: "webhook zeroDigest (Some ''test-secret'') tm w
       (page_updated_test_request (Some (digestHex (zeroDigest ''test-secret'' bodyText))) bodyText)
     = (InternalError500, tm, [ApprovalCheck])"
    using zero_signature_accepted [of bodyText]
    by (simp add: page_updated_processable webhook_def page_updated_test_request_def
        processAssetEvent_def)
  have c: "webhook hmac None tm w (example_request ''com.adobe.aem.page.updated'' (JStr ''draft''))
     = (Processed200 Skipped, tm, [ApprovalCheck])"
    by (simp add: page_updated_processable webhook_def checkSignature_def example_request_def
        example_event_def processAssetEvent_def isAssetApproved_def approvalFields_def
        toLowerCase_def)
  from a b c show ?thesis by simp
qed

section \<open>Failure results of the client\<close>

lemma getAccessToken_trace:
  "snd (snd (getAccessToken tm now outcome now')) = [] \<or>
   snd (snd (getAccessToken tm now outcome now')) = [OAuthRequest]"
  by (simp add: getAccessToken_def split: token_start.splits prod.splits)

text \<open>Creating and updating classify a rejected request: no response, a status from 500 on,
  or 429 is retryable, and nothing else.\<close>

lemma sendAssetMetadata_retryable:
  assumes "w_api w = ApiRejected response"
      and "fst (getAccessToken tm (w_now w) (w_token w) (w_settled w)) = Inr token"
  shows "\<exists>details. fst (sendAssetMetadata tm w d) =
           SyncFailed details
             (Some (response = None \<or> resp_status (the response) \<ge> 500 \<or>
                    resp_status (the response) = 429))"
  using assms
  by (auto simp: sendAssetMetadata_def isRetryableError_def
      split: prod.splits sum.splits option.splits)

lemma updateAssetMetadata_retryable:
  assumes "w_api w = ApiRejected response"
      and "fst (getAccessToken tm (w_now w) (w_token w) (w_settled w)) = Inr token"
  shows "\<exists>details. fst (updateAssetMetadata tm w a d) =
           SyncFailed details
             (Some (response = None \<or> resp_status (the response) \<ge> 500 \<or>
                    resp_status (the response) = 429))"
  using assms
  by (auto simp: updateAssetMetadata_def isRetryableError_def
      split: prod.splits sum.splits option.splits)

text \<open>Removing never sets the flag.\<close>

lemma deleteAsset_no_retryable:
  "isSuccess (fst (deleteAsset tm w a)) \<or>
   (\<exists>details. fst (deleteAsset tm w a) = SyncFailed details None)"
  by (auto simp: deleteAsset_def isSuccess_def split: prod.splits sum.splits api_outcome.splits)

text \<open>
  C2 asks of each of the three operations a failure result with a \<open>retryable\<close> flag that is
  true for a status of 500 or more. Here \<open>deleteAsset\<close> meets a 503 response: its result has
  the error and no \<open>retryable\<close> flag at all.
\<close>

theorem C2_deleteAsset_503_without_retryable:
  "deleteAsset newTokenManager world_503 (Some (JStr ''u1'')) =
     (SyncFailed \<lparr>ed_assetId = Some (JStr ''u1''), ed_error = ErrMessage RequestFailed,
                  ed_status = Some 503\<rparr> None,
      \<lparr>accessToken = Some ''t1'', tokenExpiry = Some (Num 3541200)\<rparr>,
      [OAuthRequest, ApiRequest DELETE])"
  by (simp add: deleteAsset_def world_503_def example_world_def getAccessToken_def
      getAccessToken_start_def getAccessToken_settle_def cacheValid_def newTokenManager_def
      errorDetails_def newExpiry_hour)

section \<open>The token cache\<close>

lemma start_Requested: "\<not> cacheValid tm now \<Longrightarrow> getAccessToken_start tm now = Requested"
  by (simp add: getAccessToken_start_def)

lemma tm_schedule_calls:
  assumes "\<forall>now \<in> set clock. \<not> cacheValid (manager s) now"
  shows "tm_schedule s (map CallStarts clock) =
           s\<lparr>inFlight := inFlight s + length clock, issued := issued s + length clock\<rparr>"
  using assms
proof (induction clock arbitrary: s)
  case Nil
  then show ?case by (simp add: tm_schedule_def)
next
  case (Cons t ts)
  let ?s' = "s\<lparr>inFlight := inFlight s + 1, issued := issued s + 1\<rparr>"
  have step: "tm_step s (CallStarts t) = ?s'"
    using Cons.prems by (simp add: tm_step_def start_Requested)
  have "\<forall>now \<in> set ts. \<not> cacheValid (manager ?s') now" using Cons.prems by simp
  from Cons.IH [OF this] step show ?case by (simp add: tm_schedule_def)
qed

text \<open>A caller that starts after the response has arrived uses the cached token: one
  request serves both calls.\<close>

lemma later_caller_uses_cache:
  "issued (tm_schedule tm_initial
      [CallStarts 1000,
       RequestSettles (TokenResolved \<lparr>access_token = ''t1'', expires_in = Some 3600\<rparr>) 1200,
       CallStarts 1300]) = 1"
  by (simp add: tm_schedule_def tm_initial_def tm_step_def getAccessToken_start_def
      getAccessToken_settle_def cacheValid_def newTokenManager_def newExpiry_hour)

text \<open>
  C3, as stated, fails: two callers that start with no cached token, the second before any
  response has come, issue two token requests, and both are in flight together.
\<close>

theorem C3_two_callers_two_requests:
  "issued (tm_schedule tm_initial [CallStarts 1000, CallStarts 1000]) = 2 \<and>
   inFlight (tm_schedule tm_initial [CallStarts 1000, CallStarts 1000]) = 2"
  by (simp add: tm_schedule_def tm_initial_def tm_step_def getAccessToken_start_def
      cacheValid_def newTokenManager_def)

text \<open>
  C3, amended: when \<open>getAccessToken\<close> is called N times with no valid cached token and no
  response in between, every call issues a token request of its own: N requests are issued
  and N are in flight.
\<close>

theorem C3_one_request_per_caller:
  assumes "\<forall>now \<in> set clock. \<not> cacheValid (manager s) now"
  shows "issued (tm_schedule s (map CallStarts clock)) = issued s + length clock \<and>
         inFlight (tm_schedule s (map CallStarts clock)) = inFlight s + length clock"
  using tm_schedule_calls [OF assms] by simp

theorem C3_one_request_per_caller_witness:
  "\<not> cacheValid (manager tm_initial) 1000 \<and>
   \<not> cacheValid (manager tm_initial) 1001 \<and>
   \<not> cacheValid (manager tm_initial) 1002 \<and>
   issued (tm_schedule tm_initial (map CallStarts [1000, 1001, 1002])) = 3 \<and>
   inFlight (tm_schedule tm_initial (map CallStarts [1000, 1001, 1002])) = 3"
proof -
  have h: "\<forall>now \<in> set [1000, 1001, 1002]. \<not> cacheValid (manager tm_initial) now"
    by (simp add: cacheValid_def tm_initial_def newTokenManager_def)
  from C3_one_request_per_caller [OF h] h show ?thesis by (simp add: tm_initial_def)
qed




text \<open>
  C8: when the token request is rejected, with a response that is not 2xx or with none, the
  cached token and expiry are what they were before the call, and the call raises the
  authentication error.
\<close>

theorem C8_failed_request_keeps_cache:
  "fst (snd (getAccessToken tm now (TokenRejected st) now')) = tm \<and>
   (\<not> cacheValid tm now \<longrightarrow>
      getAccessToken tm now (TokenRejected st) now'
        = (Inl AuthenticationFailed, tm, [OAuthRequest]))"
  by (auto simp: getAccessToken_def getAccessToken_start_def getAccessToken_settle_def
      split: token_start.splits)

theorem C8_failed_request_keeps_cache_witness:
  "\<not> cacheValid \<lparr>accessToken = Some ''t0'', tokenExpiry = Some (Num 5000)\<rparr> 5000 \<and>
   getAccessToken \<lparr>accessToken = Some ''t0'', tokenExpiry = Some (Num 5000)\<rparr> 5000
       (TokenRejected (Some 401)) 5200
     = (Inl AuthenticationFailed, \<lparr>accessToken = Some ''t0'', tokenExpiry = Some (Num 5000)\<rparr>,
        [OAuthRequest])"
  using C8_failed_request_keeps_cache
      [of "\<lparr>accessToken = Some ''t0'', tokenExpiry = Some (Num 5000)\<rparr>" 5000 "Some 401" 5200]
  by (simp add: cacheValid_def)

section \<open>Signature verification\<close>

lemma small_nat_cases:
  "n < 16 \<Longrightarrow> n \<in> {0, 1, 2, 3, 4, 5, 6, 7, 8, 9, 10, 11, 12, 13, 14, 15::nat}"
  by (simp only: insert_iff empty_iff) presburger

lemma unhex_digit_nat:
  assumes "n < 16"
  shows "unhex (''0123456789abcdef'' ! n) = Some (of_nat n)"
  using small_nat_cases [OF assms] by (elim insertE emptyE) (simp_all add: unhex_def)

lemma unhex_hexDigit: "d < 16 \<Longrightarrow> unhex (hexDigit d) = Some d"
  unfolding hexDigit_def using unhex_digit_nat [of "unat d"] by (simp add: word_less_nat_alt)

lemma hi_nibble: "drop_bit 4 (b::byte) < 16"
proof -
  have "unat b < 256" using unsigned_less [of b, where 'a=nat] by simp
  then have "unat b div 16 < 16" by simp
  then show ?thesis by (simp add: word_less_nat_alt drop_bit_eq_div unat_div)
qed

lemma lo_nibble: "(b::byte) AND 15 < 16"
proof -
  have "b AND 15 \<le> 15" by (rule word_and_le1)
  moreover have "(15::byte) < 16" by simp
  ultimately show ?thesis by (rule order.strict_trans1)
qed

lemma nibbles_join: "push_bit 4 (drop_bit 4 b) OR (b AND 15) = (b::byte)"
proof -
  have m: "(15::byte) = mask 4" by (simp add: mask_eq_exp_minus_1)
  show ?thesis unfolding m by (rule bit_word_eqI) (auto simp: bit_simps)
qed

lemma digestHex_Cons:
  "digestHex (b # bs) = hexDigit (drop_bit 4 b) # hexDigit (b AND 15) # digestHex bs"
  by (simp add: digestHex_def)

text \<open>Decoding the hexadecimal digest gives the digest back.\<close>

lemma bufferFromHex_digestHex: "bufferFromHex (digestHex bs) = bs"
proof (induction bs)
  case Nil
  show ?case by (simp add: digestHex_def)
next
  case (Cons b bs)
  then show ?case
    by (simp add: digestHex_Cons unhex_hexDigit hi_nibble lo_nibble nibbles_join)
qed

text \<open>The header that equals the hexadecimal digest is accepted.\<close>

lemma valid_signature_accepted:
  "verifyWebhookSignature hmac payload (Some (digestHex (hmac secret payload))) secret = Inr True"
  by (simp add: verifyWebhookSignature_def timingSafeEqual_def)

text \<open>A header of the right length that decodes to other bytes is refused with \<open>false\<close>.\<close>

lemma wrong_signature_refused:
  assumes "length (bufferFromHex sig) = length (hmac secret payload)"
      and "bufferFromHex sig \<noteq> hmac secret payload"
  shows "verifyWebhookSignature hmac payload (Some sig) secret = Inr False"
  using assms
  by (simp add: verifyWebhookSignature_def timingSafeEqual_def bufferFromHex_digestHex)

text \<open>
  C4 asks that verification return \<open>false\<close>, and never throw, on a header of the wrong
  length. Here the header is \<open>abcd\<close>, two bytes, against a digest of 32 bytes:
  \<open>timingSafeEqual\<close> throws a RangeError, and the handler, with a secret configured, answers
  500 where an invalid signature is to give 401.
\<close>

theorem C4_short_signature_throws:
  assumes "secret \<noteq> []"
      and "length (hmac secret (rq_bodyText rq)) = 32"
      and "rq_signature rq = Some ''abcd''"
  shows "verifyWebhookSignature hmac (rq_bodyText rq) (rq_signature rq) secret = Inl RangeError \<and>
         webhook hmac (Some secret) tm w rq = (InternalError500, tm, [])"
proof -
  have "bufferFromHex ''abcd'' = [0xab, 0xcd]" by (simp add: unhex_def)
  then have v: "verifyWebhookSignature hmac (rq_bodyText rq) (Some ''abcd'') secret = Inl RangeError"
    using assms(2)
    by (simp add: verifyWebhookSignature_def timingSafeEqual_def bufferFromHex_digestHex)
  then show ?thesis using assms(1,3) by (simp add: webhook_def checkSignature_def)
qed

theorem C4_short_signature_throws_witness:
  "''secret'' \<noteq> [] \<and>
   length (zeroDigest ''secret''
      (rq_bodyText ((example_request ''com.adobe.aem.assets.updated'' (JStr ''approved''))
                      \<lparr>rq_signature := Some ''abcd''\<rparr>))) = 32 \<and>
   rq_signature ((example_request ''com.adobe.aem.assets.updated'' (JStr ''approved''))
                      \<lparr>rq_signature := Some ''abcd''\<rparr>) = Some ''abcd'' \<and>
   webhook zeroDigest (Some ''secret'') newTokenManager example_world
      ((example_request ''com.adobe.aem.assets.updated'' (JStr ''approved''))
         \<lparr>rq_signature := Some ''abcd''\<rparr>)
     = (InternalError500, newTokenManager, [])"
  using C4_short_signature_throws [of "''secret''" zeroDigest
      "(example_request ''com.adobe.aem.assets.updated'' (JStr ''approved''))
         \<lparr>rq_signature := Some ''abcd''\<rparr>" newTokenManager example_world]
  by (simp add: zeroDigest_def)

section \<open>The approval gate\<close>

text \<open>One round of the loop, by the kind of value the field holds.\<close>

lemma approvalLoop_step:
  "approvalLoop (f # fs) md =
     (if truthyNonString (md f) then Inl TypeError
      else if approves (md f) then Inr True
      else approvalLoop fs md)"
  by (cases "md f"; cases "the (md f)")
     (auto simp: truthyNonString_def approves_def toLowerCase_def split: jsval.splits)

text \<open>The runtime action's check gives the same verdicts and the same errors.\<close>

lemma some_js_approvalLoop: "some_js (fieldApproves md) names = approvalLoop names md"
  by (induction names)
     (auto simp: fieldApproves_def split: option.splits sum.splits bool.splits)

lemma isAssetApproved_action_eq: "isAssetApproved_action md = isAssetApproved md"
  by (simp add: isAssetApproved_action_def isAssetApproved_def some_js_approvalLoop)

lemma approvalLoop_throws:
  assumes "i < length names"
      and "truthyNonString (md (names ! i))"
      and "\<forall>j<i. \<not> approves (md (names ! j))"
  shows "approvalLoop names md = Inl TypeError"
  using assms
proof (induction names arbitrary: i)
  case Nil
  then show ?case by simp
next
  case (Cons f fs)
  show ?case
  proof (cases i)
    case 0
    with Cons.prems show ?thesis by (simp add: approvalLoop_step del: approvalLoop.simps)
  next
    case (Suc k)
    with Cons.prems have "k < length fs" "truthyNonString (md (fs ! k))"
      "\<forall>j<k. \<not> approves (md (fs ! j))" "\<not> approves (md f)"
      by auto
    with Cons.IH [of k] show ?thesis by (simp add: approvalLoop_step del: approvalLoop.simps)
  qed
qed

lemma approvalLoop_not_approved:
  assumes "\<forall>f \<in> set names. \<not> approves (md f) \<and> \<not> truthyNonString (md f)"
  shows "approvalLoop names md = Inr False"
  using assms by (induction names) (simp_all add: approvalLoop_step del: approvalLoop.simps(2))

text \<open>When every status field is absent, falsy or a string other than the two approving
  words, the event is skipped after the approval check alone.\<close>

lemma unapproved_strings_skipped:
  assumes "ev_metadata ev = Some md"
      and "\<forall>f \<in> set approvalFields. \<not> approves (md f) \<and> \<not> truthyNonString (md f)"
  shows "processAssetEvent tm w ev = (Inr Skipped, tm, [ApprovalCheck])"
  using approvalLoop_not_approved [OF assms(2)] assms(1)
  by (simp add: processAssetEvent_def isAssetApproved_def)

text \<open>
  C6 asks for \<open>skipped\<close> whenever no status field equals \<open>approved\<close> or \<open>published\<close>. Here
  \<open>dam:status\<close> is the number 5, which equals neither: the approval check throws a TypeError,
  \<open>processAssetEvent\<close> ends with it, and the endpoint answers 500.
\<close>

theorem C6_number_status_throws:
  "processAssetEvent tm w
      \<lparr>ev_assetPath = Some ''/content/dam/p.jpg'',
       ev_metadata = Some [''dam:status'' \<mapsto> JNum 5],
       ev_eventType = Some ''com.adobe.aem.assets.updated''\<rparr>
     = (Inl TypeError, tm, [ApprovalCheck]) \<and>
   webhook hmac None tm w
      \<lparr>rq_signature = None, rq_bodyText = ''{}'',
       rq_event_type = Some ''com.adobe.aem.assets.updated'',
       rq_event = \<lparr>ev_assetPath = Some ''/content/dam/p.jpg'',
                   ev_metadata = Some [''dam:status'' \<mapsto> JNum 5],
                   ev_eventType = Some ''com.adobe.aem.assets.updated''\<rparr>\<rparr>
     = (InternalError500, tm, [ApprovalCheck])"
  by (simp add: processAssetEvent_def isAssetApproved_def approvalFields_def webhook_def
      checkSignature_def assets_updated_processable)

text \<open>
  C10, as stated, fails: with \<open>dam:status\<close> approved and the later field
  \<open>cq:workflowStatus\<close> holding the number 5, both checks return at the first field and
  nothing is thrown.
\<close>

theorem C10_approved_before_number:
  "isAssetApproved [''dam:status'' \<mapsto> JStr ''approved'', ''cq:workflowStatus'' \<mapsto> JNum 5]
     = Inr True \<and>
   isAssetApproved_action
       [''dam:status'' \<mapsto> JStr ''approved'', ''cq:workflowStatus'' \<mapsto> JNum 5]
     = Inr True \<and>
   getApprovalStatus [''dam:status'' \<mapsto> JStr ''approved'', ''cq:workflowStatus'' \<mapsto> JNum 5]
     = Inr ''approved''"
  by (simp add: isAssetApproved_action_eq isAssetApproved_def approvalFields_def
      getApprovalStatus_def toLowerCase_def)

text \<open>
  C10, amended: when one of the approval status fields holds a truthy value that is not a
  string, and no field before it in the list holds \<open>approved\<close> or \<open>published\<close>,
  \<open>isAssetApproved\<close> throws a TypeError, in the service and in the runtime action (and
  \<open>getApprovalStatus\<close> too, when the field is one of its three); \<open>processAssetEvent\<close> ends
  with that error after the approval check alone, and the endpoint answers 500 for an event
  that passed the signature check and the filter.
\<close>

theorem C10_non_string_status_throws:
  assumes "i < length approvalFields"
      and "truthyNonString (md (approvalFields ! i))"
      and "\<forall>j<i. \<not> approves (md (approvalFields ! j))"
      and "ev_metadata ev = Some md"
  shows "isAssetApproved md = Inl TypeError \<and>
         isAssetApproved_action md = Inl TypeError \<and>
         (i < 3 \<longrightarrow> getApprovalStatus md = Inl TypeError) \<and>
         processAssetEvent tm w ev = (Inl TypeError, tm, [ApprovalCheck]) \<and>
         (checkSignature hmac secret rq = Inr True \<and> rq_event_type rq = Some t \<and>
          shouldProcessEvent t \<and> rq_event rq = ev \<longrightarrow>
            webhook hmac secret tm w rq = (InternalError500, tm, [ApprovalCheck]))"
proof -
  have a: "isAssetApproved md = Inl TypeError"
    unfolding isAssetApproved_def using assms(1-3) by (rule approvalLoop_throws)
  have b: "getApprovalStatus md = Inl TypeError" if "i < 3"
  proof -
    let ?fs = "[''dam:status'', ''dam:approvalStatus'', ''cq:workflowStatus'']"
    have eq: "\<And>j. j < 3 \<Longrightarrow> ?fs ! j = approvalFields ! j"
      by (simp add: approvalFields_def nth_Cons split: nat.splits)
    have "approvalLoop ?fs md = Inl TypeError"
    proof (rule approvalLoop_throws [where i = i])
      show "i < length ?fs" using that by simp
      show "truthyNonString (md (?fs ! i))" using assms(2) eq [OF that] by simp
      show "\<forall>j<i. \<not> approves (md (?fs ! j))"
      proof (intro allI impI)
        fix j assume "j < i"
        then have "j < 3" using that by simp
        from eq [OF this] assms(3) \<open>j < i\<close> show "\<not> approves (md (?fs ! j))"
          by simp
      qed
    qed
    then show ?thesis by (simp add: getApprovalStatus_def)
  qed
  have c: "processAssetEvent tm w ev = (Inl TypeError, tm, [ApprovalCheck])"
    using a assms(4) by (simp add: processAssetEvent_def)
  have e: "webhook hmac secret tm w rq = (InternalError500, tm, [ApprovalCheck])"
    if "checkSignature hmac secret rq = Inr True" "rq_event_type rq = Some t"
       "shouldProcessEvent t" "rq_event rq = ev"
  proof -
    have "t \<noteq> []" using that(3) shouldProcessEvent_empty by auto
    then show ?thesis using that c by (simp add: webhook_def)
  qed
  show ?thesis using a b c e by (simp add: isAssetApproved_action_eq)
qed

theorem C10_non_string_status_throws_witness:
  "2 < length approvalFields \<and>
   truthyNonString (array_status_metadata (approvalFields ! 2)) \<and>
   \<not> approves (array_status_metadata (approvalFields ! 0)) \<and>
   \<not> approves (array_status_metadata (approvalFields ! 1)) \<and>
   ev_metadata array_status_event = Some array_status_metadata \<and>
   isAssetApproved array_status_metadata = Inl TypeError \<and>
   isAssetApproved_action array_status_metadata = Inl TypeError \<and>
   getApprovalStatus array_status_metadata = Inl TypeError \<and>
   checkSignature zeroDigest None array_status_request = Inr True \<and>
   shouldProcessEvent ''com.adobe.aem.assets.updated'' \<and>
   webhook zeroDigest None newTokenManager example_world array_status_request
     = (InternalError500, newTokenManager, [ApprovalCheck])"
proof -
  have h1: "2 < length approvalFields" by (simp add: approvalFields_def)
  have h2: "truthyNonString (array_status_metadata (approvalFields ! 2))"
    by (simp add: approvalFields_def array_status_metadata_def truthyNonString_def)
  have h3: "\<forall>j<2. \<not> approves (array_status_metadata (approvalFields ! j))"
  proof (intro allI impI)
    fix j :: nat assume "j < 2"
    then have "j = 0 \<or> j = 1" by auto
    then show "\<not> approves (array_status_metadata (approvalFields ! j))"
      by (auto simp: approvalFields_def array_status_metadata_def approves_def toLowerCase_def)
  qed
  have h4: "checkSignature zeroDigest None array_status_request = Inr True"
    by (simp add: checkSignature_def)
  have h5: "rq_event_type array_status_request = Some ''com.adobe.aem.assets.updated''"
    "rq_event array_status_request = array_status_event"
    by (simp_all add: array_status_request_def)
  have h6: "ev_metadata array_status_event = Some array_status_metadata"
    by (simp add: array_status_event_def)
  from C10_non_string_status_throws [OF h1 h2 h3 h6, where hmac = zeroDigest and secret = None
      and rq = array_status_request and t = "''com.adobe.aem.assets.updated''"
      and tm = newTokenManager and w = example_world]
    h1 h2 h3 [rule_format, of 0] h3 [rule_format, of 1] h4 h5 h6 assets_updated_processable
  show ?thesis by simp
qed

section \<open>Dispatch\<close>

lemma sendAssetMetadata_trace:
  "snd (snd (sendAssetMetadata tm w d)) \<in>
     {[], [OAuthRequest], [ApiRequest POST], [OAuthRequest, ApiRequest POST]}"
  using getAccessToken_trace [of tm "w_now w" "w_token w" "w_settled w"]
  by (cases "getAccessToken tm (w_now w) (w_token w) (w_settled w)")
     (auto simp: sendAssetMetadata_def getProp_def split: sum.splits api_outcome.splits)

lemma updateAssetMetadata_trace:
  "snd (snd (updateAssetMetadata tm w a d)) \<in>
     {[], [OAuthRequest], [ApiRequest PUT], [OAuthRequest, ApiRequest PUT]}"
  using getAccessToken_trace [of tm "w_now w" "w_token w" "w_settled w"]
  by (cases "getAccessToken tm (w_now w) (w_token w) (w_settled w)")
     (auto simp: updateAssetMetadata_def getProp_def split: sum.splits api_outcome.splits)

lemma deleteAsset_trace:
  "snd (snd (deleteAsset tm w a)) \<in>
     {[], [OAuthRequest], [ApiRequest DELETE], [OAuthRequest, ApiRequest DELETE]}"
  using getAccessToken_trace [of tm "w_now w" "w_token w" "w_settled w"]
  by (cases "getAccessToken tm (w_now w) (w_token w) (w_settled w)")
     (auto simp: deleteAsset_def split: sum.splits api_outcome.splits)

lemma client_trace_reading:
  assumes "tr \<in> {[], [OAuthRequest], [ApiRequest v], [OAuthRequest, ApiRequest v]}"
  shows "dispatched tr = [] \<and> set (apiRequests tr) \<subseteq> {v}"
  using assms by auto

text \<open>While an asset is approved, reading its approval status does not throw.\<close>

lemma approved_status_readable:
  assumes "isAssetApproved md = Inr True"
  shows "\<exists>s. getApprovalStatus md = Inr s"
  using assms
  by (auto simp: isAssetApproved_def approvalFields_def getApprovalStatus_def approvalLoop_step
      simp del: approvalLoop.simps(2) split: if_splits)

text \<open>So the transformation of an approved asset completes exactly when the MIME type it
  works with is a string: \<open>dc:format\<close> when that is truthy, the type looked up from the path
  otherwise.\<close>

lemma getMimeTypeFromPath_cases:
  "(\<exists>m. getMimeTypeFromPath p = JStr m) \<or> getMimeTypeFromPath p = JObj []"
  by (simp add: getMimeTypeFromPath_def Let_def split: option.splits)

lemma transform_completes_iff:
  assumes "isAssetApproved md = Inr True"
  shows "(\<exists>d. transformForMLE md (Some p) t = Inr d) \<longleftrightarrow>
           (\<exists>m. jsOr (md ''dc:format'') (Some (getMimeTypeFromPath p)) = Some (JStr m))"
proof -
  obtain s where s: "getApprovalStatus md = Inr s"
    using approved_status_readable [OF assms] by blast
  have a: "assetIdOf md (Some p) \<noteq> Inl e" for e
    by (simp add: assetIdOf_def orFromPath_def fromPath_def)
  have t: "(\<exists>d. transformForMLE md (Some p) t = Inr d) \<longleftrightarrow>
      (\<exists>x. getMediaType (jsOr (md ''dc:format'') (Some (getMimeTypeFromPath p))) = Inr x)"
    using a
    by (auto simp: transformForMLE_def orFromPath_def fromPath_def jsOr_def s
        split: sum.splits)
  show ?thesis
  proof (cases "truthy (md ''dc:format'')")
    case True
    then obtain v where v: "md ''dc:format'' = Some v" by (cases "md ''dc:format''") auto
    show ?thesis unfolding t using True v
      by (cases v) (auto simp: jsOr_def getMediaType_def)
  next
    case False
    show ?thesis unfolding t using False getMimeTypeFromPath_cases [of p]
      by (auto simp: jsOr_def getMediaType_def)
  qed
qed

lemma transform_gives_assetId:
  assumes "transformForMLE md p t = Inr d"
  shows "assetIdOf md p = Inr (d_assetId d)"
  using assms by (auto simp: transformForMLE_def split: sum.splits)

text \<open>The trace of an approved event whose transformation completes, branch by branch.\<close>

lemma processAssetEvent_create:
  assumes "ev_metadata ev = Some md"
      and "isAssetApproved md = Inr True"
      and "ev_eventType ev = Some t"
      and "transformForMLE md (ev_assetPath ev) (ev_eventType ev) = Inr d"
      and "includes_str t ''created'' \<or> includes_str t ''published''"
  shows "snd (snd (processAssetEvent tm w ev)) =
           [ApprovalCheck, Transform, Dispatch Create] @ snd (snd (sendAssetMetadata tm w d))"
  using assms transform_gives_assetId [OF assms(4)]
  by (auto simp: processAssetEvent_def split: prod.splits)

lemma processAssetEvent_update:
  assumes "ev_metadata ev = Some md"
      and "isAssetApproved md = Inr True"
      and "ev_eventType ev = Some t"
      and "transformForMLE md (ev_assetPath ev) (ev_eventType ev) = Inr d"
      and "\<not> includes_str t ''created''"
      and "\<not> includes_str t ''published''"
      and "includes_str t ''updated'' \<or> includes_str t ''modified''"
  shows "snd (snd (processAssetEvent tm w ev)) =
           [ApprovalCheck, Transform, Dispatch Update]
             @ snd (snd (updateAssetMetadata tm w (d_assetId d) d))"
  using assms transform_gives_assetId [OF assms(4)]
  by (auto simp: processAssetEvent_def split: prod.splits)

lemma processAssetEvent_remove:
  assumes "ev_metadata ev = Some md"
      and "isAssetApproved md = Inr True"
      and "ev_eventType ev = Some t"
      and "transformForMLE md (ev_assetPath ev) (ev_eventType ev) = Inr d"
      and "\<not> includes_str t ''created''"
      and "\<not> includes_str t ''published''"
      and "\<not> includes_str t ''updated''"
      and "\<not> includes_str t ''modified''"
      and "includes_str t ''deleted'' \<or> includes_str t ''removed''"
  shows "snd (snd (processAssetEvent tm w ev)) =
           [ApprovalCheck, Transform, Dispatch Remove] @ snd (snd (deleteAsset tm w (d_assetId d)))"
  using assms transform_gives_assetId [OF assms(4)]
  by (auto simp: processAssetEvent_def split: prod.splits)

lemma processAssetEvent_default:
  assumes "ev_metadata ev = Some md"
      and "isAssetApproved md = Inr True"
      and "ev_eventType ev = Some t"
      and "transformForMLE md (ev_assetPath ev) (ev_eventType ev) = Inr d"
      and "\<not> includes_str t ''created''"
      and "\<not> includes_str t ''published''"
      and "\<not> includes_str t ''updated''"
      and "\<not> includes_str t ''modified''"
      and "\<not> includes_str t ''deleted''"
      and "\<not> includes_str t ''removed''"
  shows "snd (snd (processAssetEvent tm w ev)) =
           [ApprovalCheck, Transform, Dispatch Create] @ snd (snd (sendAssetMetadata tm w d))"
  using assms transform_gives_assetId [OF assms(4)]
  by (auto simp: processAssetEvent_def split: prod.splits)

text \<open>When the transformation throws, or the event has no \<open>eventType\<close>, no client function
  is called.\<close>

lemma processAssetEvent_transform_fails:
  assumes "ev_metadata ev = Some md"
      and "transformForMLE md (ev_assetPath ev) (ev_eventType ev) = Inl e"
  shows "dispatched (snd (snd (processAssetEvent tm w ev))) = [] \<and>
         apiRequests (snd (snd (processAssetEvent tm w ev))) = []"
  using assms by (auto simp: processAssetEvent_def split: sum.splits bool.splits)

lemma processAssetEvent_no_eventType:
  assumes "ev_eventType ev = None"
  shows "dispatched (snd (snd (processAssetEvent tm w ev))) = [] \<and>
         apiRequests (snd (snd (processAssetEvent tm w ev))) = []"
  using assms by (auto simp: processAssetEvent_def split: sum.splits bool.splits option.splits)

lemma number_format_approved: "isAssetApproved number_format_metadata = Inr True"
  by (simp add: number_format_metadata_def isAssetApproved_def approvalFields_def
      toLowerCase_def)

lemma number_format_transform:
  "transformForMLE number_format_metadata (Some ''/content/dam/p.jpg'')
     (Some ''com.adobe.aem.assets.updated'') = Inl TypeError"
  by (simp add: number_format_metadata_def transformForMLE_def orFromPath_def assetIdOf_def
      getMediaType_def)

text \<open>
  C7, as stated, fails: the asset is approved and the event type
  \<open>com.adobe.aem.assets.updated\<close> passes the filter, but \<open>dc:format\<close> is the number 5, the
  transformation throws on it inside the \<open>try\<close>, and the result is an error with no
  operation dispatched and no request made.
\<close>

theorem C7_number_format_nothing_dispatched:
  "isAssetApproved number_format_metadata = Inr True \<and>
   shouldProcessEvent ''com.adobe.aem.assets.updated'' \<and>
   processAssetEvent newTokenManager example_world number_format_event
     = (Inr (errorResult TypeError (Some (JStr ''u1''))), newTokenManager,
        [ApprovalCheck, Transform]) \<and>
   dispatched (snd (snd (processAssetEvent newTokenManager example_world number_format_event)))
     = []"
proof -
  have p: "processAssetEvent newTokenManager example_world number_format_event
     = (Inr (errorResult TypeError (Some (JStr ''u1''))), newTokenManager,
        [ApprovalCheck, Transform])"
    using number_format_approved number_format_transform
    by (simp add: processAssetEvent_def number_format_event_def assetIdOf_def orFromPath_def
        number_format_metadata_def)
  from p number_format_approved assets_updated_processable show ?thesis by simp
qed

text \<open>
  C7, amended: for every approved event that has an event type and whose transformation
  completes without throwing, the one operation dispatched is chosen by substrings of the
  event type: \<open>created\<close> or \<open>published\<close> gives create; otherwise \<open>updated\<close> or \<open>modified\<close>
  gives update; otherwise \<open>deleted\<close> or \<open>removed\<close> gives remove; any other type gives create.
  The only request that reaches the API is the one of that operation.
\<close>

theorem C7_dispatch_by_event_type:
  assumes "ev_metadata ev = Some md"
      and "isAssetApproved md = Inr True"
      and "ev_eventType ev = Some t"
      and "transformForMLE md (ev_assetPath ev) (ev_eventType ev) = Inr d"
  shows "dispatched (snd (snd (processAssetEvent tm w ev))) =
           [if includes_str t ''created'' \<or> includes_str t ''published'' then Create
            else if includes_str t ''updated'' \<or> includes_str t ''modified'' then Update
            else if includes_str t ''deleted'' \<or> includes_str t ''removed'' then Remove
            else Create] \<and>
         set (apiRequests (snd (snd (processAssetEvent tm w ev))))
           \<subseteq> verbOf ` set (dispatched (snd (snd (processAssetEvent tm w ev))))"
proof -
  consider
      (create) "includes_str t ''created'' \<or> includes_str t ''published''"
    | (update) "\<not> includes_str t ''created''" "\<not> includes_str t ''published''"
        "includes_str t ''updated'' \<or> includes_str t ''modified''"
    | (remove) "\<not> includes_str t ''created''" "\<not> includes_str t ''published''"
        "\<not> includes_str t ''updated''" "\<not> includes_str t ''modified''"
        "includes_str t ''deleted'' \<or> includes_str t ''removed''"
    | (default) "\<not> includes_str t ''created''" "\<not> includes_str t ''published''"
        "\<not> includes_str t ''updated''" "\<not> includes_str t ''modified''"
        "\<not> includes_str t ''deleted''" "\<not> includes_str t ''removed''"
    by blast
  then show ?thesis
  proof cases
    case create
    from processAssetEvent_create [OF assms create, of tm w]
      client_trace_reading [OF sendAssetMetadata_trace [of tm w d]] create
    show ?thesis by auto
  next
    case update
    from processAssetEvent_update [OF assms update, of tm w]
      client_trace_reading [OF updateAssetMetadata_trace [of tm w "d_assetId d" d]] update
    show ?thesis by auto
  next
    case remove
    from processAssetEvent_remove [OF assms remove, of tm w]
      client_trace_reading [OF deleteAsset_trace [of tm w "d_assetId d"]] remove
    show ?thesis by auto
  next
    case default
    from processAssetEvent_default [OF assms default, of tm w]
      client_trace_reading [OF sendAssetMetadata_trace [of tm w d]] default
    show ?thesis by auto
  qed
qed

lemma example_transform:
  "\<exists>d. transformForMLE
          [''dam:status'' \<mapsto> JStr ''approved'', ''dc:title'' \<mapsto> JStr ''T'',
           ''jcr:uuid'' \<mapsto> JStr ''u1'']
          (Some ''/content/dam/p.jpg'') (Some ''com.adobe.aem.assets.updated'') = Inr d"
  by (simp add: transformForMLE_def orFromPath_def fromPath_def assetIdOf_def
      getMimeTypeFromPath_def pop_def toLowerCase_def mimeTypes_def getMediaType_def
      getApprovalStatus_def)

text \<open>The first end-to-end scenario, in a body that carries the three properties: an approved
  asset and the event type \<open>com.adobe.aem.assets.updated\<close> give one update, sent with PUT.\<close>

theorem C7_dispatch_by_event_type_witness:
  "ev_metadata (example_event ''com.adobe.aem.assets.updated'' (JStr ''approved''))
     = Some [''dam:status'' \<mapsto> JStr ''approved'', ''dc:title'' \<mapsto> JStr ''T'',
             ''jcr:uuid'' \<mapsto> JStr ''u1''] \<and>
   isAssetApproved [''dam:status'' \<mapsto> JStr ''approved'', ''dc:title'' \<mapsto> JStr ''T'',
                    ''jcr:uuid'' \<mapsto> JStr ''u1''] = Inr True \<and>
   ev_eventType (example_event ''com.adobe.aem.assets.updated'' (JStr ''approved''))
     = Some ''com.adobe.aem.assets.updated'' \<and>
   dispatched (snd (snd (processAssetEvent newTokenManager example_world
       (example_event ''com.adobe.aem.assets.updated'' (JStr ''approved''))))) = [Update] \<and>
   apiRequests (snd (snd (processAssetEvent newTokenManager example_world
       (example_event ''com.adobe.aem.assets.updated'' (JStr ''approved''))))) = [PUT]"
proof -
  let ?ev = "example_event ''com.adobe.aem.assets.updated'' (JStr ''approved'')"
  let ?md = "[''dam:status'' \<mapsto> JStr ''approved'', ''dc:title'' \<mapsto> JStr ''T'',
              ''jcr:uuid'' \<mapsto> JStr ''u1'']"
  have m: "ev_metadata ?ev = Some ?md" by (simp add: example_event_def)
  have h: "isAssetApproved ?md = Inr True"
    by (simp add: isAssetApproved_def approvalFields_def toLowerCase_def)
  have et: "ev_eventType ?ev = Some ''com.adobe.aem.assets.updated''"
    by (simp add: example_event_def)
  have ap: "ev_assetPath ?ev = Some ''/content/dam/p.jpg''" by (simp add: example_event_def)
  obtain d where t: "transformForMLE ?md (ev_assetPath ?ev) (ev_eventType ?ev) = Inr d"
    using example_transform by (auto simp: et ap)
  have a: "apiRequests (snd (snd (processAssetEvent newTokenManager example_world ?ev))) = [PUT]"
    using h t m transform_gives_assetId [OF t]
    by (simp add: processAssetEvent_def et updateAssetMetadata_def example_world_def
        getAccessToken_def getAccessToken_start_def getAccessToken_settle_def cacheValid_def
        newTokenManager_def getProp_def Let_def isSuccess_def)
  from C7_dispatch_by_event_type [OF m h et t, of newTokenManager example_world] a m h et
  show ?thesis by simp
qed

section \<open>Tags, categories and keywords\<close>

lemma sameValueZero_sym: "sameValueZero a b = sameValueZero b a"
  by (auto simp: sameValueZero_def)

lemma noDuplicates_snoc:
  "noDuplicates (xs @ [v]) = (noDuplicates xs \<and> \<not> list_ex (sameValueZero v) xs)"
  by (induction xs) (auto simp: list_ex_iff sameValueZero_sym)

lemma noDuplicates_setAdd: "noDuplicates seen \<Longrightarrow> noDuplicates (setAdd seen v)"
  by (simp add: setAdd_def noDuplicates_snoc)

lemma noDuplicates_foldl: "noDuplicates seen \<Longrightarrow> noDuplicates (foldl setAdd seen xs)"
  by (induction xs arbitrary: seen) (simp_all add: noDuplicates_setAdd)

lemma noDuplicates_spreadSet: "noDuplicates (spreadSet xs)"
  by (simp add: spreadSet_def noDuplicates_foldl)

lemma noDuplicates_distinct:
  "noDuplicates xs \<Longrightarrow> list_all primitive xs \<Longrightarrow> distinct xs"
  by (induction xs) (auto simp: list_ex_iff sameValueZero_def)

text \<open>Nothing is lost: the result holds exactly the values that were pushed.\<close>

lemma set_setAdd: "set (setAdd seen v) = insert v (set seen)"
  by (auto simp: setAdd_def list_ex_iff sameValueZero_def)

lemma set_foldl_setAdd: "set (foldl setAdd seen xs) = set seen \<union> set xs"
  by (induction xs arbitrary: seen) (simp_all add: set_setAdd)

lemma set_spreadSet: "set (spreadSet xs) = set xs"
  by (simp add: spreadSet_def set_foldl_setAdd)

text \<open>
  C9: for every metadata map, the tags, the categories and the keywords hold no value twice
  in the sense of the \<open>Set\<close> they are taken from; when their elements are strings, numbers,
  booleans or \<open>null\<close>, as the scalars and sequences of the metadata type are, the lists are
  distinct.
\<close>

theorem C9_no_duplicates:
  "noDuplicates (extractTags md) \<and>
   noDuplicates (extractCategories md) \<and>
   noDuplicates (extractKeywords md) \<and>
   (list_all primitive (extractTags md) \<longrightarrow> distinct (extractTags md)) \<and>
   (list_all primitive (extractCategories md) \<longrightarrow> distinct (extractCategories md)) \<and>
   (list_all primitive (extractKeywords md) \<longrightarrow> distinct (extractKeywords md))"
  by (simp add: extractTags_def extractCategories_def extractKeywords_def
      noDuplicates_spreadSet noDuplicates_distinct)

theorem C9_no_duplicates_witness:
  "extractTags overlapping_tags = [JStr ''a'', JStr ''b''] \<and>
   extractCategories overlapping_tags = [JStr ''c'', JNum 7] \<and>
   extractKeywords overlapping_tags = [JStr ''k''] \<and>
   list_all primitive (extractTags overlapping_tags) \<and>
   list_all primitive (extractCategories overlapping_tags) \<and>
   list_all primitive (extractKeywords overlapping_tags) \<and>
   distinct (extractTags overlapping_tags) \<and>
   distinct (extractCategories overlapping_tags) \<and>
   distinct (extractKeywords overlapping_tags)"
proof -
  have t: "extractTags overlapping_tags = [JStr ''a'', JStr ''b'']"
    by (simp add: extractTags_def overlapping_tags_def pushField_def asArray_def spreadSet_def
        setAdd_def sameValueZero_def)
  have c: "extractCategories overlapping_tags = [JStr ''c'', JNum 7]"
    by (simp add: extractCategories_def overlapping_tags_def pushField_def asArray_def
        spreadSet_def setAdd_def sameValueZero_def)
  have k: "extractKeywords overlapping_tags = [JStr ''k'']"
    by (simp add: extractKeywords_def overlapping_tags_def pushField_def asArray_def
        spreadSet_def setAdd_def sameValueZero_def)
  have p: "list_all primitive (extractTags overlapping_tags)"
    "list_all primitive (extractCategories overlapping_tags)"
    "list_all primitive (extractKeywords overlapping_tags)"
    by (simp_all add: t c k)
  from C9_no_duplicates [of overlapping_tags] p
  have d: "distinct (extractTags overlapping_tags) \<and>
           distinct (extractCategories overlapping_tags) \<and>
           distinct (extractKeywords overlapping_tags)"
    by blast
  from d p t c k show ?thesis by blast
qed

end
